theory Spec2Isabelle
  imports Main "HOL-Library.Sublist"
begin

section \<open>mkwd: a shallow embedding of the project scaffolder\<close>

text \<open>
  The development follows \<^verbatim>\<open>mkwd.py\<close>: the class \<^verbatim>\<open>ProjectScaffolder\<close> with its
  methods \<^verbatim>\<open>create\<close>, \<^verbatim>\<open>_create_portfolio_structure\<close>, \<^verbatim>\<open>_create_api_structure\<close>,
  \<^verbatim>\<open>_create_fullstack_structure\<close>, \<^verbatim>\<open>_build_structure\<close>, \<^verbatim>\<open>_create_file\<close>, the
  template methods \<^verbatim>\<open>_get_*\<close>, and the entry point \<^verbatim>\<open>main\<close>.

  Python text (\<^verbatim>\<open>str\<close>) is held as the list of the bytes of its UTF-8 encoding, so the
  few characters of the source outside ASCII appear as their bytes (\<open>CHR 0xE2, ...\<close>).
  The byte \<open>0x2F\<close> occurs in UTF-8 only as the character \<^verbatim>\<open>/\<close>, so splitting a path at
  that byte is splitting it at the separator.
\<close>

subsection \<open>Errors\<close>

text \<open>
  Every way a run can end other than by returning: \<^verbatim>\<open>sys.exit(n)\<close>, the usage error of
  \<^verbatim>\<open>argparse\<close> (it holds the refused value), and the exceptions the file system calls of
  the source raise. None of them is caught by the source, so each ends the process.
\<close>

datatype error =
    SystemExit int
  | ArgumentError string
  | FileNotFoundError
  | FileExistsError
  | NotADirectoryError
  | IsADirectoryError
  | ValueError

text \<open>
  The exit status of the process: the argument of \<^verbatim>\<open>sys.exit\<close>, 2 for a usage error of
  \<^verbatim>\<open>argparse\<close>, 1 for an exception that reaches the top level.
\<close>

fun exit_status :: "error \<Rightarrow> int" where
  "exit_status (SystemExit n) = n"
| "exit_status (ArgumentError v) = 2"
| "exit_status e = 1"

subsection \<open>Paths (\<^verbatim>\<open>pathlib\<close> on POSIX)\<close>

text \<open>
  A \<^verbatim>\<open>Path\<close> of the source is always absolute (it starts from \<^verbatim>\<open>Path.cwd()\<close>); it is held
  as the list of its parts below the root \<^verbatim>\<open>/\<close>. As in \<^verbatim>\<open>pathlib\<close>, empty parts and
  \<^verbatim>\<open>.\<close> parts are dropped when a string is parsed, a part \<^verbatim>\<open>..\<close> is kept (only the
  file system resolves it), and joining an absolute string replaces the left operand.
\<close>

type_synonym path = "string list"

fun split_slash :: "string \<Rightarrow> string list" where
  "split_slash [] = [[]]"
| "split_slash (c # cs) =
     (if c = CHR ''/'' then [] # split_slash cs
      else (case split_slash cs of [] \<Rightarrow> [[c]] | p # ps \<Rightarrow> (c # p) # ps))"

definition parse_parts :: "string \<Rightarrow> string list" where
  "parse_parts s = filter (\<lambda>p. p \<noteq> [] \<and> p \<noteq> ''.'') (split_slash s)"

definition is_absolute :: "string \<Rightarrow> bool" where
  "is_absolute s = (case s of [] \<Rightarrow> False | c # cs \<Rightarrow> c = CHR ''/'')"

definition joinpath :: "path \<Rightarrow> string \<Rightarrow> path" where
  \<comment> \<open>the operator \<^verbatim>\<open>/\<close> of \<^verbatim>\<open>pathlib\<close>\<close>
  "joinpath base s = (if is_absolute s then parse_parts s else base @ parse_parts s)"

definition parent :: "path \<Rightarrow> path" where
  \<comment> \<open>\<^verbatim>\<open>Path.parent\<close>; the parent of the root is the root\<close>
  "parent p = butlast p"

definition relative_to :: "path \<Rightarrow> path \<Rightarrow> error + string list" where
  \<comment> \<open>\<^verbatim>\<open>Path.relative_to\<close>: purely lexical, \<^verbatim>\<open>ValueError\<close> when \<open>other\<close> is no prefix\<close>
  "relative_to p other =
     (if prefix other p then Inr (drop (length other) p) else Inl ValueError)"

fun join_parts :: "string list \<Rightarrow> string" where
  "join_parts [] = []"
| "join_parts [p] = p"
| "join_parts (p # ps) = p @ ''/'' @ join_parts ps"

definition rel_str :: "string list \<Rightarrow> string" where
  \<comment> \<open>\<^verbatim>\<open>str\<close> of a relative path; the empty relative path prints as \<^verbatim>\<open>.\<close>\<close>
  "rel_str ps = (if ps = [] then ''.'' else join_parts ps)"

definition path_str :: "path \<Rightarrow> string" where
  \<comment> \<open>\<^verbatim>\<open>str\<close> of an absolute path\<close>
  "path_str p = ''/'' @ join_parts p"

subsection \<open>The file system\<close>

text \<open>
  The file system maps the canonical location of an entry (no \<^verbatim>\<open>..\<close> part) to what is
  there. The root directory \<open>[]\<close> always exists. There are no symbolic links and no
  permissions in the model, and text is always encodable (a UTF-8 locale).
\<close>

datatype node = DirN | FileN string

type_synonym filesystem = "path \<rightharpoonup> node"

definition is_dir :: "filesystem \<Rightarrow> path \<Rightarrow> bool" where
  "is_dir f p = (p = [] \<or> f p = Some DirN)"

text \<open>
  Path resolution of the operating system: walking the parts \<open>ps\<close> from the directory at
  \<open>cur\<close>. Every part is looked up in a directory that must exist (\<^verbatim>\<open>ENOENT\<close> when nothing
  is there, \<^verbatim>\<open>ENOTDIR\<close> when a file is there); \<^verbatim>\<open>..\<close> steps to the parent, and the parent of
  the root is the root. The result is the location the path names, which may be vacant.
\<close>

fun walk :: "filesystem \<Rightarrow> path \<Rightarrow> string list \<Rightarrow> error + path" where
  "walk f cur [] = Inr cur"
| "walk f cur (c # cs) =
     (if is_dir f cur then walk f (if c = ''..'' then butlast cur else cur @ [c]) cs
      else if f cur = None then Inl FileNotFoundError
      else Inl NotADirectoryError)"

definition stat :: "filesystem \<Rightarrow> path \<Rightarrow> error + node" where
  "stat f p =
     (case walk f [] p of
        Inl e \<Rightarrow> Inl e
      | Inr q \<Rightarrow>
          if q = [] then Inr DirN
          else (case f q of None \<Rightarrow> Inl FileNotFoundError | Some n \<Rightarrow> Inr n))"

definition path_exists :: "filesystem \<Rightarrow> path \<Rightarrow> bool" where
  \<comment> \<open>\<^verbatim>\<open>Path.exists\<close>: false when the lookup fails\<close>
  "path_exists f p = (case stat f p of Inl e \<Rightarrow> False | Inr n \<Rightarrow> True)"

definition path_is_dir :: "filesystem \<Rightarrow> path \<Rightarrow> bool" where
  \<comment> \<open>\<^verbatim>\<open>Path.is_dir\<close>\<close>
  "path_is_dir f p = (stat f p = Inr DirN)"

definition os_mkdir :: "filesystem \<Rightarrow> path \<Rightarrow> error + filesystem" where
  \<comment> \<open>\<^verbatim>\<open>os.mkdir\<close>: the parent must resolve to a directory, the location must be vacant\<close>
  "os_mkdir f p =
     (case walk f [] p of
        Inl e \<Rightarrow> Inl e
      | Inr q \<Rightarrow>
          if q = [] \<or> f q \<noteq> None then Inl FileExistsError
          else Inr (f(q \<mapsto> DirN)))"

definition open_w :: "filesystem \<Rightarrow> path \<Rightarrow> string \<Rightarrow> error + filesystem" where
  \<comment> \<open>\<^verbatim>\<open>open(filepath, 'w')\<close> followed by \<^verbatim>\<open>write(content)\<close>: creates or truncates the file\<close>
  "open_w f p content =
     (case walk f [] p of
        Inl e \<Rightarrow> Inl e
      | Inr q \<Rightarrow>
          if is_dir f q then Inl IsADirectoryError
          else Inr (f(q \<mapsto> FileN content)))"

text \<open>
  \<^verbatim>\<open>Path.mkdir(parents, exist_ok=True)\<close>, as \<^verbatim>\<open>pathlib\<close> implements it: try
  \<^verbatim>\<open>os.mkdir\<close>; on \<^verbatim>\<open>FileNotFoundError\<close>, with \<^verbatim>\<open>parents\<close> and below the root, make the
  parent (with its parents) and then the directory itself without \<^verbatim>\<open>parents\<close>; on any
  other error, succeed if the path is a directory and raise otherwise. The file system
  is returned in either case: directories made before a failure stay.
\<close>

function path_mkdir :: "bool \<Rightarrow> filesystem \<Rightarrow> path \<Rightarrow> (error + unit) \<times> filesystem" where
  "path_mkdir parents f p =
     (case os_mkdir f p of
        Inr f' \<Rightarrow> (Inr (), f')
      | Inl FileNotFoundError \<Rightarrow>
          if \<not> parents \<or> parent p = p then (Inl FileNotFoundError, f)
          else (case path_mkdir True f (parent p) of
                  (Inl e, f') \<Rightarrow> (Inl e, f')
                | (Inr u, f') \<Rightarrow> path_mkdir False f' p)
      | Inl e \<Rightarrow> if path_is_dir f p then (Inr (), f) else (Inl e, f))"
  by pat_completeness auto
termination
proof (relation "measure (\<lambda>(parents, f, p). 2 * length p + (if parents then 1 else 0))")
  fix parents :: bool and f :: filesystem and p :: path
  assume "\<not> (\<not> parents \<or> parent p = p)"
  then have "p \<noteq> []"
    by (auto simp: parent_def)
  then show "((True, f, parent p), (parents, f, p))
      \<in> measure (\<lambda>(parents, f, p). 2 * length p + (if parents then 1 else 0))"
    by (cases p) (auto simp: parent_def)
qed auto

declare path_mkdir.simps [simp del]

subsection \<open>The world and its effects\<close>

text \<open>
  The world a run acts on: the working directory of the process, the file system, the
  lines printed to standard output (one entry for each call of \<^verbatim>\<open>print\<close>), and the trace
  of the file system calls the source makes, in order.
\<close>

datatype syscall = Exists path | Mkdir path | Open path

record world =
  cwd :: path
  fs :: filesystem
  out :: "string list"
  trace :: "syscall list"

type_synonym 'a io = "world \<Rightarrow> (error + 'a) \<times> world"

definition bind_io :: "'a io \<Rightarrow> ('a \<Rightarrow> 'b io) \<Rightarrow> 'b io" where
  \<comment> \<open>sequencing: an error ends the run and keeps the world as it is at that point\<close>
  "bind_io m k = (\<lambda>w. case m w of (Inl e, w') \<Rightarrow> (Inl e, w') | (Inr x, w') \<Rightarrow> k x w')"

definition seq_io :: "unit io \<Rightarrow> 'b io \<Rightarrow> 'b io" where
  "seq_io m k = bind_io m (\<lambda>u. k)"

definition return_io :: "'a \<Rightarrow> 'a io" where
  "return_io x = (\<lambda>w. (Inr x, w))"

definition raise_io :: "error \<Rightarrow> 'a io" where
  "raise_io e = (\<lambda>w. (Inl e, w))"

definition print :: "string \<Rightarrow> unit io" where
  "print line = (\<lambda>w. (Inr (), w\<lparr>out := out w @ [line]\<rparr>))"

definition sys_exit :: "int \<Rightarrow> 'a io" where
  "sys_exit n = raise_io (SystemExit n)"

definition exists_io :: "path \<Rightarrow> bool io" where
  "exists_io p = (\<lambda>w. (Inr (path_exists (fs w) p), w\<lparr>trace := trace w @ [Exists p]\<rparr>))"

definition mkdir_io :: "path \<Rightarrow> unit io" where
  \<comment> \<open>\<^verbatim>\<open>path.mkdir(parents=True, exist_ok=True)\<close>\<close>
  "mkdir_io p =
     (\<lambda>w. case path_mkdir True (fs w) p of
             (r, f') \<Rightarrow> (r, w\<lparr>fs := f', trace := trace w @ [Mkdir p]\<rparr>))"

definition write_io :: "path \<Rightarrow> string \<Rightarrow> unit io" where
  \<comment> \<open>\<^verbatim>\<open>with open(filepath, 'w') as f: f.write(content)\<close>\<close>
  "write_io p content =
     (\<lambda>w. case open_w (fs w) p content of
             Inl e \<Rightarrow> (Inl e, w\<lparr>trace := trace w @ [Open p]\<rparr>)
           | Inr f' \<Rightarrow> (Inr (), w\<lparr>fs := f', trace := trace w @ [Open p]\<rparr>))"

subsection \<open>The scaffolder\<close>

record scaffolder =
  project_name :: string
  project_type :: string
  project_root :: path

definition init :: "world \<Rightarrow> string \<Rightarrow> string \<Rightarrow> scaffolder" where
  \<comment> \<open>\<^verbatim>\<open>__init__\<close>: the root is \<^verbatim>\<open>Path.cwd() / project_name\<close>\<close>
  "init w name type =
     \<lparr>project_name = name, project_type = type, project_root = joinpath (cwd w) name\<rparr>"

text \<open>
  The tree a type lays out is a Python dictionary: a name maps to a nested dictionary (a
  directory) or to a string (the content of a file). Iteration follows insertion order,
  so the dictionary is the list of its items; a dictionary has no key twice.
\<close>

datatype tree = Str string | Dict "(string \<times> tree) list"

definition created_line :: "string list \<Rightarrow> string" where
  \<comment> \<open>the progress line of \<^verbatim>\<open>_create_file\<close>; the mark is U+2713\<close>
  "created_line rel = ''  '' @ [CHR 0xE2, CHR 0x9C, CHR 0x93] @ '' Created: '' @ rel_str rel"

definition create_file :: "scaffolder \<Rightarrow> path \<Rightarrow> string \<Rightarrow> unit io" where
  "create_file self filepath content =
     seq_io (write_io filepath content)
       (\<lambda>w. case relative_to filepath (project_root self) of
               Inl e \<Rightarrow> raise_io e w
             | Inr rel \<Rightarrow> print (created_line rel) w)"

fun build_structure :: "scaffolder \<Rightarrow> path \<Rightarrow> (string \<times> tree) list \<Rightarrow> unit io"
  and build_item :: "scaffolder \<Rightarrow> path \<Rightarrow> tree \<Rightarrow> unit io" where
  "build_structure self base_path [] = return_io ()"
| "build_structure self base_path ((name, content) # rest) =
     seq_io (build_item self (joinpath base_path name) content)
         (build_structure self base_path rest)"
| "build_item self path (Dict d) =
     seq_io (mkdir_io path) (build_structure self path d)"
| "build_item self path (Str content) =
     seq_io (mkdir_io (parent path)) (create_file self path content)"

text \<open>
  \<open>build_structure\<close> is the loop of \<^verbatim>\<open>_build_structure\<close> over the items of the dictionary;
  \<open>build_item\<close> is its body, applied to \<^verbatim>\<open>path = base_path / name\<close>: the branch of
  \<^verbatim>\<open>isinstance(content, dict)\<close> and the branch of a file.
\<close>

subsection \<open>Template contents\<close>

definition text_lines :: "string list \<Rightarrow> string" where
  \<comment> \<open>the lines of a text, each ended by a newline\<close>
  "text_lines ls = concat (map (\<lambda>l. l @ [CHR 0x0A]) ls)"

definition get_app_init :: string where
  \<open>get_app_init = text_lines
    [''"""Portfolio Application Package"""'',
     ''__version__ = "1.0.0"'']\<close>

definition get_main_py :: string where
  \<open>get_main_py = text_lines
    [''"""'',
     ''Main FastAPI Application'',
     ''"""'',
     ''from fastapi import FastAPI'',
     ''from fastapi.staticfiles import StaticFiles'',
     ''from fastapi.middleware.cors import CORSMiddleware'',
     ''from pathlib import Path'',
     '''',
     ''from app.config import settings'',
     ''from app.database.connection import init_db'',
     ''from app.api.routes import pages, chatbot, email, contact, analytics'',
     ''from app.api.middleware.analytics import AnalyticsMiddleware'',
     ''from app.api.middleware.security import SecurityHeadersMiddleware'',
     '''',
     ''def create_app() -> FastAPI:'',
     ''    """Application factory"""'',
     ''    app = FastAPI('',
     ''        title=settings.PROJECT_NAME,'',
     ''        version="1.0.0",'',
     ''        docs_url="/api/docs" if settings.DEBUG else None,'',
     ''    )'',
     ''    '',
     ''    # CORS'',
     ''    app.add_middleware('',
     ''        CORSMiddleware,'',
     ''        allow_origins=settings.ALLOWED_ORIGINS,'',
     ''        allow_credentials=True,'',
     ''        allow_methods=["*"],'',
     ''        allow_headers=["*"],'',
     ''    )'',
     ''    '',
     ''    # Custom Middleware'',
     ''    app.add_middleware(AnalyticsMiddleware)'',
     ''    app.add_middleware(SecurityHeadersMiddleware)'',
     ''    '',
     ''    # Static Files'',
     ''    app.mount('',
     ''        "/static",'',
     ''        StaticFiles(directory=Path(__file__).parent.parent / "static"),'',
     ''        name="static"'',
     ''    )'',
     ''    '',
     ''    # Routes'',
     ''    app.include_router(pages.router, tags=["Pages"])'',
     ''    app.include_router(chatbot.router, prefix="/api/v1/chatbot", tags=["Chatbot"])'',
     ''    app.include_router(email.router, prefix="/api/v1/email", tags=["Email"])'',
     ''    app.include_router(contact.router, prefix="/api/v1/contact", tags=["Contact"])'',
     ''    app.include_router(analytics.router, prefix="/api/v1/analytics", tags=["Analytics"])'',
     ''    '',
     ''    @app.on_event("startup")'',
     ''    async def startup():'',
     ''        init_db()'',
     ''        print(f"'' @ [CHR 0xF0, CHR 0x9F, CHR 0x9A, CHR 0x80] @ '' {settings.PROJECT_NAME} started!")'',
     ''    '',
     ''    @app.get("/health")'',
     ''    async def health():'',
     ''        return {"status": "healthy"}'',
     ''    '',
     ''    return app'',
     '''',
     ''app = create_app()'',
     '''',
     ''if __name__ == "__main__":'',
     ''    import uvicorn'',
     ''    uvicorn.run("app.main:app", host="0.0.0.0", port=8080, reload=settings.DEBUG)'']\<close>

definition get_config_py :: string where
  \<open>get_config_py = text_lines
    [''"""Configuration Management"""'',
     ''from pydantic_settings import BaseSettings'',
     ''from typing import List'',
     '''',
     ''class Settings(BaseSettings):'',
     ''    PROJECT_NAME: str = "My Portfolio"'',
     ''    ENVIRONMENT: str = "development"'',
     ''    DEBUG: bool = True'',
     ''    DATABASE_URL: str = "sqlite:///./app.db"'',
     ''    SECRET_KEY: str = "change-me-in-production"'',
     ''    ALLOWED_ORIGINS: List[str] = ["http://localhost:8080"]'',
     ''    '',
     ''    OPENAI_API_KEY: str = ""'',
     ''    GROQ_API_KEY: str = ""'',
     ''    WEBHOOK_URL: str = ""'',
     ''    '',
     ''    ENABLE_ANALYTICS: bool = True'',
     ''    '',
     ''    class Config:'',
     ''        env_file = ".env"'',
     ''        case_sensitive = True'',
     '''',
     ''settings = Settings()'']\<close>

definition get_models_py :: string where
  \<open>get_models_py = text_lines
    [''"""Database Models"""'',
     ''from sqlalchemy import Column, Integer, String, DateTime, Text, Boolean'',
     ''from sqlalchemy.ext.declarative import declarative_base'',
     ''from sqlalchemy.sql import func'',
     '''',
     ''Base = declarative_base()'',
     '''',
     ''class ContactMessage(Base):'',
     ''    __tablename__ = '' @ [CHR 0x27] @ ''contact_messages'' @ [CHR 0x27],
     ''    '',
     ''    id = Column(Integer, primary_key=True)'',
     ''    name = Column(String(200), nullable=False)'',
     ''    email = Column(String(200), nullable=False)'',
     ''    message = Column(Text, nullable=False)'',
     ''    submitted_at = Column(DateTime, default=func.now())'',
     ''    read = Column(Boolean, default=False)'',
     ''    '',
     ''    def to_dict(self):'',
     ''        return {'',
     ''            '' @ [CHR 0x27] @ ''id'' @ [CHR 0x27] @ '': self.id,'',
     ''            '' @ [CHR 0x27] @ ''name'' @ [CHR 0x27] @ '': self.name,'',
     ''            '' @ [CHR 0x27] @ ''email'' @ [CHR 0x27] @ '': self.email,'',
     ''            '' @ [CHR 0x27] @ ''message'' @ [CHR 0x27] @ '': self.message,'',
     ''            '' @ [CHR 0x27] @ ''submitted_at'' @ [CHR 0x27] @ '': self.submitted_at.isoformat()'',
     ''        }'',
     '''',
     ''class Visitor(Base):'',
     ''    __tablename__ = '' @ [CHR 0x27] @ ''visitors'' @ [CHR 0x27],
     ''    '',
     ''    id = Column(Integer, primary_key=True)'',
     ''    ip_hash = Column(String(64))'',
     ''    page = Column(String(200))'',
     ''    timestamp = Column(DateTime, default=func.now())'']\<close>

definition get_connection_py :: string where
  \<open>get_connection_py = text_lines
    [''"""Database Connection"""'',
     ''from sqlalchemy import create_engine'',
     ''from sqlalchemy.orm import sessionmaker'',
     ''from contextlib import contextmanager'',
     ''from app.config import settings'',
     '''',
     ''engine = create_engine('',
     ''    settings.DATABASE_URL,'',
     ''    echo=settings.DEBUG,'',
     ''    connect_args={"check_same_thread": False} if "sqlite" in settings.DATABASE_URL else {}'',
     '')'',
     '''',
     ''SessionLocal = sessionmaker(autocommit=False, autoflush=False, bind=engine)'',
     '''',
     ''@contextmanager'',
     ''def get_db():'',
     ''    db = SessionLocal()'',
     ''    try:'',
     ''        yield db'',
     ''        db.commit()'',
     ''    except:'',
     ''        db.rollback()'',
     ''        raise'',
     ''    finally:'',
     ''        db.close()'',
     '''',
     ''def init_db():'',
     ''    from app.database.models import Base'',
     ''    Base.metadata.create_all(bind=engine)'',
     ''    print("'' @ [CHR 0xE2, CHR 0x9C, CHR 0x85] @ '' Database initialized")'']\<close>

definition get_pages_routes :: string where
  \<open>get_pages_routes = text_lines
    [''"""Page Routes"""'',
     ''from fastapi import APIRouter, Request'',
     ''from fastapi.responses import HTMLResponse'',
     ''from fastapi.templating import Jinja2Templates'',
     '''',
     ''router = APIRouter()'',
     ''templates = Jinja2Templates(directory="templates")'',
     '''',
     ''@router.get("/", response_class=HTMLResponse)'',
     ''async def home(request: Request):'',
     ''    return templates.TemplateResponse("pages/home.html", {'',
     ''        "request": request,'',
     ''        "title": "Home"'',
     ''    })'']\<close>

definition get_chatbot_routes :: string where
  \<open>get_chatbot_routes = text_lines
    [''"""Chatbot Routes"""'',
     ''from fastapi import APIRouter'',
     '''',
     ''router = APIRouter()'',
     '''',
     ''@router.post("/upload")'',
     ''async def upload_pdf():'',
     ''    return {"message": "Upload endpoint - implement your logic here"}'',
     '''',
     ''@router.post("/query")'',
     ''async def query_pdf():'',
     ''    return {"message": "Query endpoint - implement your logic here"}'']\<close>

definition get_email_routes :: string where
  \<open>get_email_routes = text_lines
    [''"""Email Generator Routes"""'',
     ''from fastapi import APIRouter'',
     '''',
     ''router = APIRouter()'',
     '''',
     ''@router.post("/generate")'',
     ''async def generate_email():'',
     ''    return {"message": "Email generation - implement your logic here"}'']\<close>

definition get_contact_routes :: string where
  \<open>get_contact_routes = text_lines
    [''"""Contact Form Routes"""'',
     ''from fastapi import APIRouter, Request, Body'',
     ''from app.database.models import ContactMessage'',
     ''from app.database.connection import get_db'',
     '''',
     ''router = APIRouter()'',
     '''',
     ''@router.post("/message")'',
     ''async def submit_contact(request: Request, payload: dict = Body(...)):'',
     ''    with get_db() as db:'',
     ''        msg = ContactMessage('',
     ''            name=payload['' @ [CHR 0x27] @ ''name'' @ [CHR 0x27] @ ''],'',
     ''            email=payload['' @ [CHR 0x27] @ ''email'' @ [CHR 0x27] @ ''],'',
     ''            message=payload['' @ [CHR 0x27] @ ''message'' @ [CHR 0x27] @ '']'',
     ''        )'',
     ''        db.add(msg)'',
     ''    return {"status": "success"}'']\<close>

definition get_analytics_routes :: string where
  \<open>get_analytics_routes = text_lines
    [''"""Analytics Routes"""'',
     ''from fastapi import APIRouter'',
     '''',
     ''router = APIRouter()'',
     '''',
     ''@router.get("/summary")'',
     ''async def get_analytics():'',
     ''    return {"message": "Analytics - implement your logic here"}'']\<close>

definition get_analytics_middleware :: string where
  \<open>get_analytics_middleware = text_lines
    [''"""Analytics Middleware"""'',
     ''from starlette.middleware.base import BaseHTTPMiddleware'',
     ''from app.database.models import Visitor'',
     ''from app.database.connection import get_db'',
     ''import hashlib'',
     '''',
     ''class AnalyticsMiddleware(BaseHTTPMiddleware):'',
     ''    async def dispatch(self, request, call_next):'',
     ''        response = await call_next(request)'',
     ''        '',
     ''        if not request.url.path.startswith('' @ [CHR 0x27] @ ''/static'' @ [CHR 0x27] @ ''):'',
     ''            try:'',
     ''                ip_hash = hashlib.sha256(request.client.host.encode()).hexdigest()'',
     ''                with get_db() as db:'',
     ''                    visitor = Visitor(ip_hash=ip_hash, page=request.url.path)'',
     ''                    db.add(visitor)'',
     ''            except:'',
     ''                pass'',
     ''        '',
     ''        return response'']\<close>

definition get_security_middleware :: string where
  \<open>get_security_middleware = text_lines
    [''"""Security Headers Middleware"""'',
     ''from starlette.middleware.base import BaseHTTPMiddleware'',
     '''',
     ''class SecurityHeadersMiddleware(BaseHTTPMiddleware):'',
     ''    async def dispatch(self, request, call_next):'',
     ''        response = await call_next(request)'',
     ''        response.headers["X-Content-Type-Options"] = "nosniff"'',
     ''        response.headers["X-Frame-Options"] = "DENY"'',
     ''        response.headers["X-XSS-Protection"] = "1; mode=block"'',
     ''        return response'']\<close>

definition get_base_css :: string where
  \<open>get_base_css = text_lines
    [''/* Base Styles */'',
     ''* {'',
     ''    margin: 0;'',
     ''    padding: 0;'',
     ''    box-sizing: border-box;'',
     ''}'',
     '''',
     '':root {'',
     ''    --primary-color: #2c3e50;'',
     ''    --secondary-color: #3498db;'',
     ''    --text-color: #333;'',
     ''    --bg-color: #ffffff;'',
     ''    --transition: all 0.3s ease;'',
     ''}'',
     '''',
     ''body {'',
     ''    font-family: '' @ [CHR 0x27] @ ''Poppins'' @ [CHR 0x27] @ '', sans-serif;'',
     ''    color: var(--text-color);'',
     ''    background-color: var(--bg-color);'',
     ''    line-height: 1.6;'',
     ''}'',
     '''',
     ''.container {'',
     ''    max-width: 1200px;'',
     ''    margin: 0 auto;'',
     ''    padding: 0 20px;'',
     ''}'']\<close>

definition get_main_js :: string where
  \<open>get_main_js = text_lines
    [''// Main JavaScript'',
     ''console.log('' @ [CHR 0x27] @ ''Portfolio loaded!'' @ [CHR 0x27] @ '');'',
     '''',
     ''// Add your global JavaScript here'']\<close>

definition get_base_template :: string where
  \<open>get_base_template = text_lines
    [''<!DOCTYPE html>'',
     ''<html lang="en">'',
     ''<head>'',
     ''    <meta charset="UTF-8">'',
     ''    <meta name="viewport" content="width=device-width, initial-scale=1.0">'',
     ''    <title>{% block title %}{{ title }}{% endblock %}</title>'',
     ''    <link rel="preconnect" href="https://fonts.googleapis.com">'',
     ''    <link href="https://fonts.googleapis.com/css2?family=Poppins:wght@300;400;600;700&display=swap" rel="stylesheet">'',
     ''    <link rel="stylesheet" href="{{ url_for('' @ [CHR 0x27] @ ''static'' @ [CHR 0x27] @ '', path='' @ [CHR 0x27] @ ''css/base.css'' @ [CHR 0x27] @ '') }}">'',
     ''    {% block extra_css %}{% endblock %}'',
     ''</head>'',
     ''<body>'',
     ''    {% include '' @ [CHR 0x27] @ ''components/navbar.html'' @ [CHR 0x27] @ '' %}'',
     ''    '',
     ''    <main>'',
     ''        {% block content %}{% endblock %}'',
     ''    </main>'',
     ''    '',
     ''    {% include '' @ [CHR 0x27] @ ''components/footer.html'' @ [CHR 0x27] @ '' %}'',
     ''    '',
     ''    <script src="{{ url_for('' @ [CHR 0x27] @ ''static'' @ [CHR 0x27] @ '', path='' @ [CHR 0x27] @ ''js/main.js'' @ [CHR 0x27] @ '') }}"></script>'',
     ''    {% block extra_js %}{% endblock %}'',
     ''</body>'',
     ''</html>'']\<close>

definition get_navbar_component :: string where
  \<open>get_navbar_component = text_lines
    [''<nav class="navbar">'',
     ''    <div class="container">'',
     ''        <div class="logo">MyPortfolio</div>'',
     ''        <ul class="nav-links">'',
     ''            <li><a href="/">Home</a></li>'',
     ''            <li><a href="/portfolio">Portfolio</a></li>'',
     ''            <li><a href="/chatbot">Chatbot</a></li>'',
     ''            <li><a href="#contact">Contact</a></li>'',
     ''        </ul>'',
     ''    </div>'',
     ''</nav>'']\<close>

definition get_footer_component :: string where
  \<open>get_footer_component = text_lines
    [''<footer class="footer">'',
     ''    <div class="container">'',
     ''        <p>&copy; 2024 MyPortfolio. All rights reserved.</p>'',
     ''    </div>'',
     ''</footer>'']\<close>

definition get_home_page :: string where
  \<open>get_home_page = text_lines
    [''{% extends "base.html" %}'',
     '''',
     ''{% block content %}'',
     ''<div class="hero">'',
     ''    <div class="container">'',
     ''        <h1>Welcome to My Portfolio</h1>'',
     ''        <p>Data Scientist | ML Engineer | Problem Solver</p>'',
     ''    </div>'',
     ''</div>'',
     ''{% endblock %}'']\<close>

definition get_env_example :: string where
  \<open>get_env_example = text_lines
    [''# Application'',
     ''PROJECT_NAME="My Portfolio"'',
     ''ENVIRONMENT=development'',
     ''DEBUG=true'',
     '''',
     ''# Database'',
     ''DATABASE_URL=sqlite:///./app.db'',
     '''',
     ''# Security'',
     ''SECRET_KEY=your-secret-key-here'',
     '''',
     ''# API Keys'',
     ''OPENAI_API_KEY='',
     ''GROQ_API_KEY='',
     '''',
     ''# Webhooks'',
     ''WEBHOOK_URL='',
     '''',
     ''# CORS'',
     ''ALLOWED_ORIGINS=http://localhost:8080'']\<close>

definition get_gitignore :: string where
  \<open>get_gitignore = text_lines
    [''# Python'',
     ''__pycache__/'',
     ''*.py[cod]'',
     ''*$py.class'',
     ''*.so'',
     ''.Python'',
     ''venv/'',
     ''env/'',
     ''ENV/'',
     ''*.egg-info/'',
     ''dist/'',
     ''build/'',
     '''',
     ''# Database'',
     ''*.db'',
     ''*.db-journal'',
     ''*.sqlite'',
     ''*.sqlite3'',
     '''',
     ''# Environment'',
     ''.env'',
     ''.env.local'',
     '''',
     ''# IDE'',
     ''.vscode/'',
     ''.idea/'',
     ''*.swp'',
     ''*.swo'',
     '''',
     ''# OS'',
     ''.DS_Store'',
     ''Thumbs.db'',
     '''',
     ''# Logs'',
     ''*.log'',
     '''',
     ''# Cache'',
     ''.cache/'',
     ''.pytest_cache/'']\<close>

definition get_requirements :: string where
  \<open>get_requirements = text_lines
    [''# Core'',
     ''fastapi==0.109.0'',
     ''uvicorn[standard]==0.27.0'',
     ''python-multipart==0.0.6'',
     ''jinja2==3.1.3'',
     ''python-dotenv==1.0.0'',
     ''pydantic-settings==2.1.0'',
     '''',
     ''# Database'',
     ''sqlalchemy==2.0.25'',
     ''alembic==1.13.1'',
     '''',
     ''# Utilities'',
     ''httpx==0.26.0'',
     ''requests==2.31.0'',
     '''',
     ''# Testing'',
     ''pytest==7.4.4'',
     ''pytest-asyncio==0.23.3'']\<close>

definition readme_quick_start :: string where
  \<open>readme_quick_start = text_lines
    ['''',
     '''',
     ''Professional web application built with FastAPI.'',
     '''',
     ''## Quick Start'',
     '''',
     ''```bash'',
     ''# Setup'',
     ''python -m venv venv'',
     ''source venv/bin/activate  # Windows: venv'' @ [CHR 0x5C] @ ''Scripts'' @ [CHR 0x5C] @ ''activate'',
     ''pip install -r requirements.txt'',
     '''',
     ''# Configure'',
     ''cp .env.example .env'',
     ''# Edit .env with your settings'',
     '''',
     ''# Run'',
     ''python app/main.py'',
     ''```'',
     '''',
     ''Visit: http://localhost:8080'',
     '''',
     ''## Features'',
     '''',
     ''- '' @ [CHR 0xE2, CHR 0x9C, CHR 0x85] @ '' Modern FastAPI backend'',
     ''- '' @ [CHR 0xE2, CHR 0x9C, CHR 0x85] @ '' SQLAlchemy database integration'',
     ''- '' @ [CHR 0xE2, CHR 0x9C, CHR 0x85] @ '' Professional project structure'',
     ''- '' @ [CHR 0xE2, CHR 0x9C, CHR 0x85] @ '' Analytics tracking'',
     ''- '' @ [CHR 0xE2, CHR 0x9C, CHR 0x85] @ '' API documentation at /api/docs'',
     '''',
     ''## Project Structure'',
     '''',
     ''```'']\<close>

definition readme_layout :: string where
  \<open>readme_layout = text_lines
    [''/'',
     [CHR 0xE2, CHR 0x94, CHR 0x9C, CHR 0xE2, CHR 0x94, CHR 0x80, CHR 0xE2, CHR 0x94, CHR 0x80] @ '' app/           # Application code'',
     [CHR 0xE2, CHR 0x94, CHR 0x9C, CHR 0xE2, CHR 0x94, CHR 0x80, CHR 0xE2, CHR 0x94, CHR 0x80] @ '' static/        # Static assets'',
     [CHR 0xE2, CHR 0x94, CHR 0x9C, CHR 0xE2, CHR 0x94, CHR 0x80, CHR 0xE2, CHR 0x94, CHR 0x80] @ '' templates/     # HTML templates'',
     [CHR 0xE2, CHR 0x94, CHR 0x9C, CHR 0xE2, CHR 0x94, CHR 0x80, CHR 0xE2, CHR 0x94, CHR 0x80] @ '' tests/         # Tests'',
     [CHR 0xE2, CHR 0x94, CHR 0x94, CHR 0xE2, CHR 0x94, CHR 0x80, CHR 0xE2, CHR 0x94, CHR 0x80] @ '' alembic/       # Database migrations'',
     ''```'',
     '''',
     ''## Development'',
     '''',
     ''```bash'',
     ''# Run with auto-reload'',
     ''python app/main.py'',
     '''',
     ''# Run tests'',
     ''pytest'',
     '''',
     ''# Database migrations'',
     ''alembic revision --autogenerate -m "description"'',
     ''alembic upgrade head'',
     ''```'']\<close>

definition get_readme :: "scaffolder \<Rightarrow> string" where
  "get_readme self =
     ''# '' @ project_name self @ readme_quick_start @ project_name self @ readme_layout"

definition get_dockerfile :: string where
  \<open>get_dockerfile = text_lines
    [''FROM python:3.11-slim'',
     '''',
     ''WORKDIR /app'',
     '''',
     ''COPY requirements.txt .'',
     ''RUN pip install --no-cache-dir -r requirements.txt'',
     '''',
     ''COPY . .'',
     '''',
     ''EXPOSE 8080'',
     '''',
     ''CMD ["python", "app/main.py"]'']\<close>

definition get_docker_compose :: string where
  \<open>get_docker_compose = text_lines
    [''version: '' @ [CHR 0x27] @ ''3.8'' @ [CHR 0x27],
     '''',
     ''services:'',
     ''  app:'',
     ''    build: .'',
     ''    ports:'',
     ''      - "8080:8080"'',
     ''    environment:'',
     ''      - DATABASE_URL=sqlite:///./app.db'',
     ''    volumes:'',
     ''      - .:/app'']\<close>

definition get_run_py :: string where
  \<open>get_run_py = text_lines
    [''"""Development server runner"""'',
     ''import uvicorn'',
     ''from app.config import settings'',
     '''',
     ''if __name__ == "__main__":'',
     ''    uvicorn.run('',
     ''        "app.main:app",'',
     ''        host="0.0.0.0",'',
     ''        port=8080,'',
     ''        reload=settings.DEBUG,'',
     ''        log_level="info"'',
     ''    )'']\<close>
subsection \<open>The catalog\<close>

text \<open>The dictionary \<^verbatim>\<open>structure\<close> of \<^verbatim>\<open>_create_portfolio_structure\<close>.\<close>

definition portfolio_structure :: "(string \<times> tree) list" where
  "portfolio_structure =
    [(''app'', Dict
       [(''__init__.py'', Str get_app_init),
        (''main.py'', Str get_main_py),
        (''config.py'', Str get_config_py),
        (''dependencies.py'', Str ''''),
        (''api'', Dict
          [(''__init__.py'', Str ''''),
           (''routes'', Dict
             [(''__init__.py'', Str ''''),
              (''pages.py'', Str get_pages_routes),
              (''chatbot.py'', Str get_chatbot_routes),
              (''email.py'', Str get_email_routes),
              (''contact.py'', Str get_contact_routes),
              (''analytics.py'', Str get_analytics_routes)]),
           (''middleware'', Dict
             [(''__init__.py'', Str ''''),
              (''analytics.py'', Str get_analytics_middleware),
              (''security.py'', Str get_security_middleware),
              (''error.py'', Str '''')])]),
        (''core'', Dict
          [(''__init__.py'', Str ''''),
           (''graphrag.py'', Str ''# Your GraphRAG implementation goes here''),
           (''document_processor.py'', Str ''# Your document processor goes here''),
           (''knowledgegraph.py'', Str ''# Your knowledge graph goes here''),
           (''queryengine.py'', Str ''# Your query engine goes here''),
           (''email_generator.py'', Str ''# Your email generator goes here'')]),
        (''database'', Dict
          [(''__init__.py'', Str ''''),
           (''models.py'', Str get_models_py),
           (''connection.py'', Str get_connection_py),
           (''crud.py'', Str ''# CRUD operations go here'')]),
        (''utils'', Dict
          [(''__init__.py'', Str ''''),
           (''session.py'', Str ''''),
           (''validators.py'', Str '''')])]),
     (''static'', Dict
       [(''css'', Dict
          [(''base.css'', Str get_base_css),
           (''components.css'', Str ''''),
           (''utils.css'', Str ''''),
           (''pages'', Dict
             [(''home.css'', Str ''''),
              (''portfolio.css'', Str ''''),
              (''chatbot.css'', Str ''''),
              (''contact.css'', Str '''')])]),
        (''js'', Dict
          [(''main.js'', Str get_main_js),
           (''components'', Dict
             [(''navbar.js'', Str ''''),
              (''footer.js'', Str ''''),
              (''typing-effect.js'', Str '''')]),
           (''pages'', Dict
             [(''chatbot.js'', Str ''''),
              (''email.js'', Str ''''),
              (''contact.js'', Str '''')])]),
        (''img'', Dict
          [(''logo'', Dict []),
           (''projects'', Dict []),
           (''backgrounds'', Dict [])])]),
     (''templates'', Dict
       [(''base.html'', Str get_base_template),
        (''components'', Dict
          [(''navbar.html'', Str get_navbar_component),
           (''footer.html'', Str get_footer_component),
           (''project-card.html'', Str '''')]),
        (''pages'', Dict
          [(''home.html'', Str get_home_page),
           (''about.html'', Str ''''),
           (''portfolio.html'', Str ''''),
           (''chatbot.html'', Str ''''),
           (''email-generator.html'', Str ''''),
           (''project-details'', Dict
             [(''cancer-prediction.html'', Str ''''),
              (''cold-email.html'', Str ''''),
              (''object-detection.html'', Str '''')])])]),
     (''tests'', Dict
       [(''__init__.py'', Str ''''),
        (''test_api.py'', Str ''''),
        (''test_database.py'', Str ''''),
        (''test_ml.py'', Str '''')]),
     (''alembic'', Dict
       [(''versions'', Dict []),
        (''env.py'', Str '''')])]"

text \<open>The dictionary \<^verbatim>\<open>structure\<close> of \<^verbatim>\<open>_create_api_structure\<close>.\<close>

definition api_structure :: "(string \<times> tree) list" where
  "api_structure =
    [(''app'', Dict
       [(''__init__.py'', Str ''''),
        (''main.py'', Str get_main_py),
        (''config.py'', Str get_config_py),
        (''api'', Dict
          [(''__init__.py'', Str ''''),
           (''routes'', Dict
             [(''__init__.py'', Str ''''),
              (''users.py'', Str ''''),
              (''auth.py'', Str '''')])]),
        (''database'', Dict
          [(''__init__.py'', Str ''''),
           (''models.py'', Str ''''),
           (''connection.py'', Str get_connection_py)])]),
     (''tests'', Dict
       [(''__init__.py'', Str ''''),
        (''test_api.py'', Str '''')])]"

subsection \<open>Creating a project\<close>

definition create_portfolio_structure :: "scaffolder \<Rightarrow> unit io" where
  "create_portfolio_structure self =
     seq_io (build_structure self (project_root self) portfolio_structure)
    (seq_io (create_file self (joinpath (project_root self) ''.env.example'') get_env_example)
    (seq_io (create_file self (joinpath (project_root self) ''.gitignore'') get_gitignore)
    (seq_io (create_file self (joinpath (project_root self) ''requirements.txt'') get_requirements)
    (seq_io (create_file self (joinpath (project_root self) ''README.md'') (get_readme self))
    (seq_io (create_file self (joinpath (project_root self) ''Dockerfile'') get_dockerfile)
    (seq_io (create_file self (joinpath (project_root self) ''docker-compose.yml'') get_docker_compose)
            (create_file self (joinpath (project_root self) ''run.py'') get_run_py)))))))"

definition create_api_structure :: "scaffolder \<Rightarrow> unit io" where
  "create_api_structure self =
     seq_io (build_structure self (project_root self) api_structure)
    (seq_io (create_file self (joinpath (project_root self) ''.env.example'') get_env_example)
    (seq_io (create_file self (joinpath (project_root self) ''.gitignore'') get_gitignore)
    (seq_io (create_file self (joinpath (project_root self) ''requirements.txt'') get_requirements)
            (create_file self (joinpath (project_root self) ''README.md'') (get_readme self)))))"

definition create_fullstack_structure :: "scaffolder \<Rightarrow> unit io" where
  "create_fullstack_structure self = create_portfolio_structure self"

text \<open>The lines \<^verbatim>\<open>create\<close> prints. The marks are U+1F680, U+274C, U+2705, U+1F4C2, U+1F3AF.\<close>

definition creating_line :: "scaffolder \<Rightarrow> string" where
  "creating_line self =
     [CHR 0xF0, CHR 0x9F, CHR 0x9A, CHR 0x80] @ '' Creating '' @ project_type self
       @ '' project: '' @ project_name self"

definition exists_line :: "scaffolder \<Rightarrow> string" where
  "exists_line self =
     [CHR 0xE2, CHR 0x9D, CHR 0x8C] @ '' Error: Directory '' @ [CHR 0x27] @ project_name self
       @ [CHR 0x27] @ '' already exists!''"

definition unknown_type_line :: "scaffolder \<Rightarrow> string" where
  "unknown_type_line self =
     [CHR 0xE2, CHR 0x9D, CHR 0x8C] @ '' Unknown project type: '' @ project_type self"

definition success_lines :: "scaffolder \<Rightarrow> string list" where
  \<comment> \<open>the eight calls of \<^verbatim>\<open>print\<close> that end a successful \<^verbatim>\<open>create\<close>\<close>
  "success_lines self =
     [[CHR 0x0A, CHR 0xE2, CHR 0x9C, CHR 0x85] @ '' Project '' @ [CHR 0x27] @ project_name self
        @ [CHR 0x27] @ '' created successfully!'',
      [CHR 0x0A, CHR 0xF0, CHR 0x9F, CHR 0x93, CHR 0x82] @ '' Location: ''
        @ path_str (project_root self),
      [CHR 0x0A, CHR 0xF0, CHR 0x9F, CHR 0x8E, CHR 0xAF] @ '' Next steps:'',
      ''   cd '' @ project_name self,
      ''   python -m venv venv'',
      ''   source venv/bin/activate  # On Windows: venv'' @ [CHR 0x5C] @ ''Scripts''
        @ [CHR 0x5C] @ ''activate'',
      ''   pip install -r requirements.txt'',
      ''   python app/main.py'']"

fun print_all :: "string list \<Rightarrow> unit io" where
  "print_all [] = return_io ()"
| "print_all (l # ls) = seq_io (print l) (print_all ls)"

definition create :: "scaffolder \<Rightarrow> unit io" where
  "create self =
     seq_io (print (creating_line self))
    (bind_io (exists_io (project_root self)) (\<lambda>found.
     seq_io (if found then seq_io (print (exists_line self)) (sys_exit 1) else return_io ())
    (seq_io (if project_type self = ''portfolio'' then create_portfolio_structure self
             else if project_type self = ''api'' then create_api_structure self
             else if project_type self = ''fullstack'' then create_fullstack_structure self
             else seq_io (print (unknown_type_line self)) (sys_exit 1))
            (print_all (success_lines self)))))"

subsection \<open>The command line\<close>

text \<open>
  \<^verbatim>\<open>main\<close> declares one positional argument \<^verbatim>\<open>project_name\<close> and the option \<^verbatim>\<open>--type\<close>
  with \<^verbatim>\<open>choices\<close> and the default \<^verbatim>\<open>portfolio\<close>. The model starts where \<^verbatim>\<open>argparse\<close> has
  split the command line \<^verbatim>\<open>mkwd <project_name> [--type=<type>]\<close> into the name and the
  value given for \<^verbatim>\<open>--type\<close>, if any: a given value outside \<^verbatim>\<open>choices\<close> is a usage error
  (the message on standard error shows the value, the exit status is 2), raised before
  the scaffolder is constructed. How \<^verbatim>\<open>argparse\<close> tokenises other command lines (help,
  abbreviated or repeated options, names that start with a dash) is not modelled.
\<close>

definition choices :: "string list" where
  "choices = [''portfolio'', ''api'', ''fullstack'']"

definition parse_args :: "string \<Rightarrow> string option \<Rightarrow> (string \<times> string) io" where
  "parse_args name type_arg =
     (case type_arg of
        None \<Rightarrow> return_io (name, ''portfolio'')
      | Some v \<Rightarrow> if v \<in> set choices then return_io (name, v) else raise_io (ArgumentError v))"

definition main :: "string \<Rightarrow> string option \<Rightarrow> unit io" where
  "main name type_arg =
     bind_io (parse_args name type_arg) (\<lambda>(project_name, type).
       (\<lambda>w. create (init w project_name type) w))"

subsection \<open>What a structure describes\<close>

text \<open>
  A name is plain when it is one path component: then \<open>joinpath base name\<close> is
  \<open>base @ [name]\<close>. A structure is well formed when every name in it is plain and no
  dictionary has a name twice (which holds of every Python dictionary).
\<close>

definition plain_name :: "string \<Rightarrow> bool" where
  "plain_name n = (n \<noteq> [] \<and> n \<noteq> ''.'' \<and> n \<noteq> ''..'' \<and> CHR ''/'' \<notin> set n)"

fun wf_structure :: "(string \<times> tree) list \<Rightarrow> bool"
  and wf_item :: "tree \<Rightarrow> bool" where
  "wf_structure [] = True"
| "wf_structure ((name, content) # rest) =
     (plain_name name \<and> name \<notin> fst ` set rest \<and> wf_item content \<and> wf_structure rest)"
| "wf_item (Dict d) = wf_structure d"
| "wf_item (Str content) = True"

text \<open>
  The nodes of a structure laid out below \<open>base\<close>: for every item, in the order of the
  dictionary and parents first, the path \<open>base/.../name\<close> its nesting gives it and what
  belongs there, a directory or a file with its content.
\<close>

fun tree_nodes :: "path \<Rightarrow> (string \<times> tree) list \<Rightarrow> (path \<times> node) list"
  and item_nodes :: "path \<Rightarrow> tree \<Rightarrow> (path \<times> node) list" where
  "tree_nodes base [] = []"
| "tree_nodes base ((name, content) # rest) =
     item_nodes (base @ [name]) content @ tree_nodes base rest"
| "item_nodes p (Dict d) = (p, DirN) # tree_nodes p d"
| "item_nodes p (Str content) = [(p, FileN content)]"

definition tree_files :: "path \<Rightarrow> (string \<times> tree) list \<Rightarrow> path list" where
  \<comment> \<open>the paths of the file nodes, in order\<close>
  "tree_files base s = map fst (filter (\<lambda>(p, k). k \<noteq> DirN) (tree_nodes base s))"

definition item_files :: "path \<Rightarrow> tree \<Rightarrow> path list" where
  "item_files p t = map fst (filter (\<lambda>(p, k). k \<noteq> DirN) (item_nodes p t))"

definition tree_dirs :: "path \<Rightarrow> (string \<times> tree) list \<Rightarrow> path list" where
  \<comment> \<open>the paths of the directory nodes, in order\<close>
  "tree_dirs base s = map fst (filter (\<lambda>(p, k). k = DirN) (tree_nodes base s))"

text \<open>The leaves of a structure: its files and its empty directories.\<close>

fun tree_leaves :: "path \<Rightarrow> (string \<times> tree) list \<Rightarrow> path list"
  and item_leaves :: "path \<Rightarrow> tree \<Rightarrow> path list" where
  "tree_leaves base [] = []"
| "tree_leaves base ((name, content) # rest) =
     item_leaves (base @ [name]) content @ tree_leaves base rest"
| "item_leaves p (Dict d) = (if d = [] then [p] else tree_leaves p d)"
| "item_leaves p (Str content) = [p]"

text \<open>The file system calls \<^verbatim>\<open>_build_structure\<close> makes for a structure, in order.\<close>

fun tree_calls :: "path \<Rightarrow> (string \<times> tree) list \<Rightarrow> syscall list"
  and item_calls :: "path \<Rightarrow> tree \<Rightarrow> syscall list" where
  "tree_calls base [] = []"
| "tree_calls base ((name, content) # rest) =
     item_calls (base @ [name]) content @ tree_calls base rest"
| "item_calls p (Dict d) = Mkdir p # tree_calls p d"
| "item_calls p (Str content) = [Mkdir (butlast p), Open p]"

text \<open>
  File systems after the fact: \<open>made_dirs f p\<close> is \<open>f\<close> with a directory at every part of
  the way to \<open>p\<close>; \<open>apply_nodes\<close> puts nodes in place one after the other; \<open>built f base s\<close>
  is \<open>f\<close> with the structure \<open>s\<close> laid out below \<open>base\<close> (an empty structure leaves \<open>f\<close>
  as it is: nothing calls \<^verbatim>\<open>mkdir\<close>).
\<close>

definition made_dirs :: "filesystem \<Rightarrow> path \<Rightarrow> filesystem" where
  "made_dirs f p = (\<lambda>q. if prefix q p \<and> q \<noteq> [] then Some DirN else f q)"

fun apply_nodes :: "(path \<times> node) list \<Rightarrow> filesystem \<Rightarrow> filesystem" where
  "apply_nodes [] f = f"
| "apply_nodes ((p, k) # ns) f = apply_nodes ns (f(p \<mapsto> k))"

definition built :: "filesystem \<Rightarrow> path \<Rightarrow> (string \<times> tree) list \<Rightarrow> filesystem" where
  "built f base s = apply_nodes (tree_nodes base s) (if s = [] then f else made_dirs f base)"

text \<open>
  Conditions on the file system a run starts from. A file system is well formed when
  every entry lies in a directory. Nothing on the way to \<open>p\<close> is a file when every part
  of the way is vacant or a directory (then \<^verbatim>\<open>mkdir(parents=True)\<close> cannot fail). A target
  is clear when it has no \<^verbatim>\<open>..\<close> part, does not exist, and nothing on the way to it is a
  file.
\<close>

definition wf_fs :: "filesystem \<Rightarrow> bool" where
  "wf_fs f = (\<forall>p. f p \<noteq> None \<longrightarrow> is_dir f (butlast p))"

definition no_file_above :: "filesystem \<Rightarrow> path \<Rightarrow> bool" where
  "no_file_above f p = (\<forall>q. prefix q p \<longrightarrow> q = [] \<or> f q = None \<or> f q = Some DirN)"

definition clear_target :: "filesystem \<Rightarrow> path \<Rightarrow> bool" where
  "clear_target f root =
     (wf_fs f \<and> ''..'' \<notin> set root \<and> no_file_above f root \<and> \<not> path_exists f root)"

text \<open>
  The root-level files a type's method writes after its \<^verbatim>\<open>structure\<close>, in order, and the
  calls of \<^verbatim>\<open>_create_file\<close> that write them one after the other.
\<close>

definition portfolio_root_files :: "scaffolder \<Rightarrow> (string \<times> string) list" where
  "portfolio_root_files self =
     [(''.env.example'', get_env_example),
      (''.gitignore'', get_gitignore),
      (''requirements.txt'', get_requirements),
      (''README.md'', get_readme self),
      (''Dockerfile'', get_dockerfile),
      (''docker-compose.yml'', get_docker_compose),
      (''run.py'', get_run_py)]"

definition api_root_files :: "scaffolder \<Rightarrow> (string \<times> string) list" where
  "api_root_files self =
     [(''.env.example'', get_env_example),
      (''.gitignore'', get_gitignore),
      (''requirements.txt'', get_requirements),
      (''README.md'', get_readme self)]"


definition as_items :: "(string \<times> string) list \<Rightarrow> (string \<times> tree) list" where
  "as_items files = map (\<lambda>(name, content). (name, Str content)) files"

text \<open>
  The tree a project type lays out below the root: the dictionary \<^verbatim>\<open>structure\<close> of its
  method, followed by its root-level files.
\<close>

definition catalog :: "scaffolder \<Rightarrow> (string \<times> tree) list option" where
  "catalog self =
     (if project_type self = ''portfolio''
        then Some (portfolio_structure @ as_items (portfolio_root_files self))
      else if project_type self = ''api''
        then Some (api_structure @ as_items (api_root_files self))
      else if project_type self = ''fullstack''
        then Some (portfolio_structure @ as_items (portfolio_root_files self))
      else None)"

text \<open>A working directory \<^verbatim>\<open>/home\<close> with nothing in it, for the examples.\<close>

definition demo_world :: world where
  "demo_world = \<lparr>cwd = [''home''], fs = [[''home''] \<mapsto> DirN], out = [], trace = []\<rparr>"

text \<open>The same working directory where \<^verbatim>\<open>/home/demo\<close> already exists.\<close>

definition taken_world :: world where
  "taken_world = demo_world\<lparr>fs := (fs demo_world)([''home'', ''demo''] \<mapsto> DirN)\<rparr>"

text \<open>Scaffolders for the project \<^verbatim>\<open>demo\<close> in that working directory.\<close>

definition demo_self :: scaffolder where
  "demo_self = init demo_world ''demo'' ''portfolio''"

definition demo_api :: scaffolder where
  "demo_api = init demo_world ''demo'' ''api''"

text \<open>
  Two small structures: a directory with an empty directory and a file, as the portfolio
  has under \<^verbatim>\<open>static/img\<close>; and one item whose name has a separator.
\<close>

definition logo_tree :: "(string \<times> tree) list" where
  "logo_tree = [(''img'', Dict [(''logo'', Dict []), (''favicon.ico'', Str ''ico'')])]"

definition slash_tree :: "(string \<times> tree) list" where
  "slash_tree = [(''a/b'', Str ''x'')]"


text \<open>An action is quiet when it never asks whether a path exists.\<close>

definition quiet :: "'a io \<Rightarrow> bool" where
  "quiet m = (\<forall>w. \<exists>calls. trace (snd (m w)) = trace w @ calls \<and> (\<forall>p. Exists p \<notin> set calls))"

text \<open>
  An action does not read the output when lines printed before it only appear in front
  of what it prints, and change nothing else.
\<close>

definition out_blind :: "'a io \<Rightarrow> bool" where
  "out_blind m =
     (\<forall>a w. m (w\<lparr>out := a @ out w\<rparr>) = (case m w of (r, w') \<Rightarrow> (r, w'\<lparr>out := a @ out w'\<rparr>)))"

text \<open>What \<^verbatim>\<open>create\<close> does after its first line, for a type that lays out the portfolio.\<close>

definition portfolio_run :: "scaffolder \<Rightarrow> unit io" where
  "portfolio_run self =
     bind_io (exists_io (project_root self)) (\<lambda>found.
     seq_io (if found then seq_io (print (exists_line self)) (sys_exit 1) else return_io ())
    (seq_io (create_portfolio_structure self) (print_all (success_lines self))))"

section \<open>Properties of the model\<close>

subsection \<open>Paths and path resolution\<close>

lemma split_slash_plain: "CHR ''/'' \<notin> set n \<Longrightarrow> split_slash n = [n]"
  by (induction n) auto

lemma joinpath_plain: "plain_name n \<Longrightarrow> joinpath base n = base @ [n]"
  by (cases n) (auto simp: plain_name_def joinpath_def is_absolute_def parse_parts_def split_slash_plain)

lemma seq_io_apply:
  "seq_io m k w = (case m w of (Inl e, w') \<Rightarrow> (Inl e, w') | (Inr u, w') \<Rightarrow> k w')"
  by (simp add: seq_io_def bind_io_def)

lemma walk_plain:
  "''..'' \<notin> set ps \<Longrightarrow> (\<forall>q. strict_prefix q ps \<longrightarrow> is_dir f (cur @ q))
    \<Longrightarrow> walk f cur ps = Inr (cur @ ps)"
proof (induction ps arbitrary: cur)
  case Nil
  then show ?case by simp
next
  case (Cons c cs)
  have d: "is_dir f cur" using Cons.prems(2)[rule_format, of "[]"] by simp
  have c: "c \<noteq> ''..''" "''..'' \<notin> set cs" using Cons.prems(1) by auto
  have "is_dir f ((cur @ [c]) @ q)" if "strict_prefix q cs" for q
    using Cons.prems(2)[rule_format, of "c # q"] that by simp
  with Cons.IH[of "cur @ [c]"] c have "walk f (cur @ [c]) cs = Inr ((cur @ [c]) @ cs)" by blast
  with d c show ?case by simp
qed

lemma walk_missing:
  "''..'' \<notin> set ps \<Longrightarrow> (\<forall>q. prefix q ps \<longrightarrow> cur @ q = [] \<or> f (cur @ q) = None \<or> f (cur @ q) = Some DirN)
    \<Longrightarrow> \<exists>q. strict_prefix q ps \<and> \<not> is_dir f (cur @ q)
    \<Longrightarrow> walk f cur ps = Inl FileNotFoundError"
proof (induction ps arbitrary: cur)
  case Nil
  then show ?case by simp
next
  case (Cons c cs)
  have c: "c \<noteq> ''..''" "''..'' \<notin> set cs" using Cons.prems(1) by auto
  show ?case
  proof (cases "is_dir f cur")
    case False
    with Cons.prems(2)[rule_format, of "[]"] show ?thesis by (auto simp: is_dir_def)
  next
    case True
    from Cons.prems(3) obtain q where q: "strict_prefix q (c # cs)" "\<not> is_dir f (cur @ q)" by blast
    with True obtain q' where q': "q = c # q'" by (cases q) auto
    have 1: "\<forall>q. prefix q cs \<longrightarrow> (cur @ [c]) @ q = [] \<or> f ((cur @ [c]) @ q) = None \<or> f ((cur @ [c]) @ q) = Some DirN"
    proof (intro allI impI)
      fix r assume "prefix r cs"
      then show "(cur @ [c]) @ r = [] \<or> f ((cur @ [c]) @ r) = None \<or> f ((cur @ [c]) @ r) = Some DirN"
        using Cons.prems(2)[rule_format, of "c # r"] by simp
    qed
    have 2: "\<exists>q. strict_prefix q cs \<and> \<not> is_dir f ((cur @ [c]) @ q)"
      using q q' by (auto simp: strict_prefix_def)
    from Cons.IH[OF c(2) 1 2] c True show ?thesis by simp
  qed
qed


lemma no_file_aboveD:
  "no_file_above f p \<Longrightarrow> prefix q p \<Longrightarrow> q \<noteq> [] \<Longrightarrow> f q = None \<or> f q = Some DirN"
  by (auto simp: no_file_above_def)

lemma made_dirs_Nil [simp]: "made_dirs f [] = f"
  by (rule ext) (simp add: made_dirs_def)

lemma made_dirs_snoc:
  "made_dirs f (ps @ [c]) = (made_dirs f ps)(ps @ [c] \<mapsto> DirN)"
  by (rule ext) (auto simp: made_dirs_def)

lemma made_dirs_same:
  "(\<forall>q. prefix q p \<longrightarrow> q \<noteq> [] \<longrightarrow> f q = Some DirN) \<Longrightarrow> made_dirs f p = f"
  by (rule ext) (auto simp: made_dirs_def)

lemma is_dir_made_dirs: "prefix q p \<Longrightarrow> is_dir (made_dirs f p) q"
  by (auto simp: is_dir_def made_dirs_def)

lemma made_dirs_other: "\<not> prefix q p \<Longrightarrow> made_dirs f p q = f q"
  by (simp add: made_dirs_def)

lemma path_mkdir_last:
  assumes "''..'' \<notin> set p" "p \<noteq> []"
    and "\<forall>q. strict_prefix q p \<longrightarrow> is_dir f q"
    and "f p = None \<or> f p = Some DirN"
  shows "path_mkdir b f p = (Inr (), f(p \<mapsto> DirN))"
proof -
  have w: "walk f [] p = Inr p"
    using walk_plain[of p f "[]"] assms(1,3) by simp
  show ?thesis
  proof (cases "f p")
    case None
    with w assms(2) have "os_mkdir f p = Inr (f(p \<mapsto> DirN))"
      by (simp add: os_mkdir_def)
    then show ?thesis by (subst path_mkdir.simps) simp
  next
    case (Some n)
    with assms(4) have n: "f p = Some DirN" by simp
    with w have e: "os_mkdir f p = Inl FileExistsError"
      by (simp add: os_mkdir_def)
    have d: "path_is_dir f p" using w n by (simp add: path_is_dir_def stat_def)
    have "f(p \<mapsto> DirN) = f" using n by auto
    with e d show ?thesis by (subst path_mkdir.simps) simp
  qed
qed

lemma strict_prefix_snoc_iff: "strict_prefix q (ps @ [c]) \<longleftrightarrow> prefix q ps"
proof
  assume "strict_prefix q (ps @ [c])"
  then show "prefix q ps" by (auto simp: strict_prefix_def)
next
  assume a: "prefix q ps"
  then have "length q \<le> length ps" by (rule prefix_length_le)
  then have "q \<noteq> ps @ [c]" by auto
  with a show "strict_prefix q (ps @ [c])" by (simp add: strict_prefix_def)
qed

lemma path_mkdir_parents:
  "''..'' \<notin> set p \<Longrightarrow> no_file_above f p \<Longrightarrow> path_mkdir True f p = (Inr (), made_dirs f p)"
proof (induction p arbitrary: f rule: rev_induct)
  case Nil
  have "os_mkdir f [] = Inl FileExistsError" by (simp add: os_mkdir_def)
  moreover have "path_is_dir f []" by (simp add: path_is_dir_def stat_def)
  ultimately show ?case by (subst path_mkdir.simps) simp
next
  case (snoc c ps)
  have c: "''..'' \<notin> set ps" "''..'' \<notin> set (ps @ [c])" using snoc.prems(1) by auto
  have nf: "no_file_above f ps" using snoc.prems(2) by (auto simp: no_file_above_def)
  have last: "f (ps @ [c]) = None \<or> f (ps @ [c]) = Some DirN"
    using no_file_aboveD[OF snoc.prems(2), of "ps @ [c]"] by simp
  show ?case
  proof (cases "\<forall>q. prefix q ps \<longrightarrow> is_dir f q")
    case True
    then have "\<forall>q. prefix q ps \<longrightarrow> q \<noteq> [] \<longrightarrow> f q = Some DirN"
      by (auto simp: is_dir_def)
    then have m: "made_dirs f ps = f"
      by (rule made_dirs_same)
    from True have "\<forall>q. strict_prefix q (ps @ [c]) \<longrightarrow> is_dir f q"
      by (simp add: strict_prefix_snoc_iff)
    then have "path_mkdir True f (ps @ [c]) = (Inr (), f(ps @ [c] \<mapsto> DirN))"
      using path_mkdir_last[of "ps @ [c]" f True] c(2) last by simp
    then show ?thesis
      unfolding made_dirs_snoc m .
  next
    case False
    have "walk f [] (ps @ [c]) = Inl FileNotFoundError"
    proof (rule walk_missing[OF c(2)])
      show "\<forall>q. prefix q (ps @ [c]) \<longrightarrow> [] @ q = [] \<or> f ([] @ q) = None \<or> f ([] @ q) = Some DirN"
        using snoc.prems(2) unfolding no_file_above_def by simp
      show "\<exists>q. strict_prefix q (ps @ [c]) \<and> \<not> is_dir f ([] @ q)"
        using False by (simp add: strict_prefix_snoc_iff)
    qed
    then have e: "os_mkdir f (ps @ [c]) = Inl FileNotFoundError" by (simp add: os_mkdir_def)
    have ih: "path_mkdir True f ps = (Inr (), made_dirs f ps)" by (rule snoc.IH[OF c(1) nf])
    have "path_mkdir False (made_dirs f ps) (ps @ [c]) = (Inr (), (made_dirs f ps)(ps @ [c] \<mapsto> DirN))"
    proof (rule path_mkdir_last[OF c(2)])
      show "ps @ [c] \<noteq> []" by simp
      show "\<forall>q. strict_prefix q (ps @ [c]) \<longrightarrow> is_dir (made_dirs f ps) q"
        by (simp add: strict_prefix_snoc_iff is_dir_made_dirs)
      show "made_dirs f ps (ps @ [c]) = None \<or> made_dirs f ps (ps @ [c]) = Some DirN"
        using last by (simp add: made_dirs_other)
    qed
    with e ih show ?thesis
      by (subst path_mkdir.simps) (simp add: parent_def made_dirs_snoc)
  qed
qed

subsection \<open>The builder on a clear target\<close>

lemma tree_files_simps [simp]:
  "tree_files base [] = []"
  "tree_files base ((name, content) # rest) = item_files (base @ [name]) content @ tree_files base rest"
  "item_files p (Dict d) = tree_files p d"
  "item_files p (Str c) = [p]"
  by (simp_all add: tree_files_def item_files_def)

lemma apply_nodes_append: "apply_nodes (xs @ ys) f = apply_nodes ys (apply_nodes xs f)"
  by (induction xs arbitrary: f) auto

lemma apply_nodes_other: "q \<notin> fst ` set ns \<Longrightarrow> apply_nodes ns f q = f q"
  by (induction ns arbitrary: f) auto

lemma nodes_below:
  "(q, k) \<in> set (tree_nodes base s) \<Longrightarrow> \<exists>n \<in> fst ` set s. prefix (base @ [n]) q"
  "(q, k) \<in> set (item_nodes p t) \<Longrightarrow> prefix p q"
proof (induction base s and p t arbitrary: q k and q k rule: tree_nodes_item_nodes.induct)
  case (1 base)
  then show ?case by simp
next
  case (2 base name content rest)
  then show ?case by fastforce
next
  case (3 p d)
  from "3.prems" show ?case
  proof (simp, elim disjE)
    assume "(q, k) \<in> set (tree_nodes p d)"
    from "3.IH"[OF this] show "prefix p q" by (auto dest: append_prefixD)
  qed simp
next
  case (4 p content)
  then show ?case by simp
qed

lemma write_io_new:
  assumes "''..'' \<notin> set p" "\<forall>q. strict_prefix q p \<longrightarrow> is_dir (fs w) q" "\<not> is_dir (fs w) p"
  shows "write_io p c w = (Inr (), w\<lparr>fs := (fs w)(p \<mapsto> FileN c), trace := trace w @ [Open p]\<rparr>)"
proof -
  have "walk (fs w) [] p = Inr p" using walk_plain[of p "fs w" "[]"] assms(1,2) by simp
  with assms(3) show ?thesis by (simp add: write_io_def open_w_def)
qed

lemma create_file_new:
  assumes "''..'' \<notin> set p" "\<forall>q. strict_prefix q p \<longrightarrow> is_dir (fs w) q" "\<not> is_dir (fs w) p"
    and "prefix (project_root self) p"
  shows "create_file self p c w =
    (Inr (), w\<lparr>fs := (fs w)(p \<mapsto> FileN c),
                out := out w @ [created_line (drop (length (project_root self)) p)],
                trace := trace w @ [Open p]\<rparr>)"
  using assms(4) write_io_new[OF assms(1-3), of c]
  by (simp add: create_file_def seq_io_apply relative_to_def print_def)

lemma mkdir_io_ok:
  assumes "''..'' \<notin> set p" "no_file_above (fs w) p"
  shows "mkdir_io p w = (Inr (), w\<lparr>fs := made_dirs (fs w) p, trace := trace w @ [Mkdir p]\<rparr>)"
  using path_mkdir_parents[OF assms] by (simp add: mkdir_io_def)

lemma no_file_above_made_dirs: "no_file_above (made_dirs f p) p"
  by (simp add: no_file_above_def made_dirs_def)

lemma made_dirs_idem: "made_dirs (made_dirs f p) p = made_dirs f p"
  by (rule ext) (simp add: made_dirs_def)

lemma not_prefix_snoc_self: "\<not> prefix (p @ [n]) q \<or> \<not> prefix q p"
proof -
  { assume "prefix (p @ [n]) q" "prefix q p"
    then have "length (p @ [n]) \<le> length p" by (meson prefix_length_le le_trans)
    then have False by simp }
  then show ?thesis by blast
qed

lemma prefix_snoc_diff: "prefix (p @ [n]) q \<Longrightarrow> prefix (p @ [m]) q \<Longrightarrow> n = m"
  by (auto simp: prefix_def)

lemma apply_nodes_single: "apply_nodes [(p, k)] f = f(p \<mapsto> k)"
  by simp

lemma build_ok:
  "wf_structure s \<Longrightarrow> ''..'' \<notin> set base \<Longrightarrow> prefix (project_root self) base
    \<Longrightarrow> no_file_above (fs w) base
    \<Longrightarrow> (\<forall>n \<in> fst ` set s. \<forall>q. prefix (base @ [n]) q \<longrightarrow> fs w q = None)
    \<Longrightarrow> build_structure self base s w =
        (Inr (), w\<lparr>fs := built (fs w) base s,
                    out := out w @ map (\<lambda>p. created_line (drop (length (project_root self)) p)) (tree_files base s),
                    trace := trace w @ tree_calls base s\<rparr>)"
  "wf_item t \<Longrightarrow> ''..'' \<notin> set p \<Longrightarrow> p \<noteq> [] \<Longrightarrow> prefix (project_root self) p
    \<Longrightarrow> no_file_above (fs w) (butlast p)
    \<Longrightarrow> (\<forall>q. prefix p q \<longrightarrow> fs w q = None)
    \<Longrightarrow> build_item self p t w =
        (Inr (), w\<lparr>fs := apply_nodes (item_nodes p t) (made_dirs (fs w) (butlast p)),
                    out := out w @ map (\<lambda>p. created_line (drop (length (project_root self)) p)) (item_files p t),
                    trace := trace w @ item_calls p t\<rparr>)"
proof (induction self base s and self p t arbitrary: w and w rule: build_structure_build_item.induct)
  case (1 self base_path)
  then show ?case by (simp add: built_def return_io_def)
next
  case (2 self base name content rest)
  let ?p = "base @ [name]"
  let ?root = "project_root self"
  have wf: "plain_name name" "name \<notin> fst ` set rest" "wf_item content" "wf_structure rest"
    using "2.prems"(1) by auto
  have jp: "joinpath base name = ?p" using wf(1) by (rule joinpath_plain)
  have dd: "''..'' \<notin> set ?p" using "2.prems"(2) wf(1) by (auto simp: plain_name_def)
  have vac: "\<forall>q. prefix ?p q \<longrightarrow> fs w q = None" using "2.prems"(5) by simp
  have pr: "prefix ?root ?p" using "2.prems"(3) by simp
  define w1 where "w1 = w\<lparr>fs := apply_nodes (item_nodes ?p content) (made_dirs (fs w) (butlast ?p)),
                    out := out w @ map (\<lambda>p. created_line (drop (length ?root) p)) (item_files ?p content),
                    trace := trace w @ item_calls ?p content\<rparr>"
  have item: "build_item self ?p content w = (Inr (), w1)"
    unfolding w1_def using "2.IH"(1)[unfolded jp, OF wf(3) dd _ pr _ vac] "2.prems"(4) by simp
  have fs1: "fs w1 = apply_nodes (item_nodes ?p content) (made_dirs (fs w) base)"
    by (simp add: w1_def)
  have keep: "fs w1 q = made_dirs (fs w) base q" if "\<not> prefix ?p q" for q
  proof -
    have "q \<notin> fst ` set (item_nodes ?p content)" using that nodes_below(2) by fastforce
    then show ?thesis by (simp add: fs1 apply_nodes_other)
  qed
  have dirs: "\<forall>q. prefix q base \<longrightarrow> q \<noteq> [] \<longrightarrow> fs w1 q = Some DirN"
  proof (intro allI impI)
    fix q assume q: "prefix q base" "q \<noteq> []"
    then have "\<not> prefix ?p q" using not_prefix_snoc_self[of base name q] by blast
    from keep[OF this] q show "fs w1 q = Some DirN" by (simp add: made_dirs_def)
  qed
  then have nfa1: "no_file_above (fs w1) base" by (auto simp: no_file_above_def)
  have vac1: "\<forall>n \<in> fst ` set rest. \<forall>q. prefix (base @ [n]) q \<longrightarrow> fs w1 q = None"
  proof (intro ballI allI impI)
    fix n q assume n: "n \<in> fst ` set rest" and q: "prefix (base @ [n]) q"
    have "n \<noteq> name" using n wf(2) by auto
    then have "\<not> prefix ?p q" using prefix_snoc_diff[OF q, of name] by auto
    from keep[OF this] have "fs w1 q = made_dirs (fs w) base q" .
    moreover have "\<not> prefix q base" using q not_prefix_snoc_self[of base n q] by blast
    moreover have "fs w q = None" using "2.prems"(5) n q by auto
    ultimately show "fs w1 q = None" by (simp add: made_dirs_def)
  qed
  have same: "made_dirs (fs w1) base = fs w1" using dirs by (rule made_dirs_same)
  have "built (fs w1) base rest = apply_nodes (tree_nodes base rest) (fs w1)"
    by (simp add: built_def same)
  also have "\<dots> = built (fs w) base ((name, content) # rest)"
    by (simp add: built_def fs1 apply_nodes_append)
  finally have b: "built (fs w1) base rest = built (fs w) base ((name, content) # rest)" .
  have rest: "build_structure self base rest w1 =
        (Inr (), w1\<lparr>fs := built (fs w1) base rest,
                    out := out w1 @ map (\<lambda>p. created_line (drop (length ?root) p)) (tree_files base rest),
                    trace := trace w1 @ tree_calls base rest\<rparr>)"
    by (rule "2.IH"(2)[OF wf(4) "2.prems"(2,3) nfa1 vac1])
  have "build_structure self base ((name, content) # rest) w = build_structure self base rest w1"
    by (simp add: jp seq_io_apply item)
  then show ?case
    unfolding rest b by (simp add: w1_def)
next
  case (3 self p d)
  let ?root = "project_root self"
  have p: "p = butlast p @ [last p]" using "3.prems"(3) by simp
  have "fs w p = None" using "3.prems"(6) by simp
  then have nfa: "no_file_above (fs w) p"
    using "3.prems"(5) p by (metis no_file_above_def prefix_snoc)
  define w1 where "w1 = w\<lparr>fs := made_dirs (fs w) p, trace := trace w @ [Mkdir p]\<rparr>"
  have mk: "mkdir_io p w = (Inr (), w1)"
    unfolding w1_def by (rule mkdir_io_ok[OF "3.prems"(2) nfa])
  have nfa1: "no_file_above (fs w1) p" by (simp add: w1_def no_file_above_made_dirs)
  have vac1: "\<forall>n \<in> fst ` set d. \<forall>q. prefix (p @ [n]) q \<longrightarrow> fs w1 q = None"
  proof (intro ballI allI impI)
    fix n q assume q: "prefix (p @ [n]) q"
    then have "\<not> prefix q p" using not_prefix_snoc_self[of p n q] by blast
    moreover have "prefix p q" using q by (rule append_prefixD)
    ultimately show "fs w1 q = None" using "3.prems"(6) by (simp add: w1_def made_dirs_def)
  qed
  have rec: "build_structure self p d w1 =
        (Inr (), w1\<lparr>fs := built (fs w1) p d,
                    out := out w1 @ map (\<lambda>p. created_line (drop (length ?root) p)) (tree_files p d),
                    trace := trace w1 @ tree_calls p d\<rparr>)"
    using "3.prems"(1) by (intro "3.IH"[OF _ "3.prems"(2,4) nfa1 vac1]) simp
  have sn: "made_dirs (fs w) p = (made_dirs (fs w) (butlast p))(p \<mapsto> DirN)"
    using made_dirs_snoc[of "fs w" "butlast p" "last p"] p by simp
  have b: "built (fs w1) p d = apply_nodes (item_nodes p (Dict d)) (made_dirs (fs w) (butlast p))"
    by (simp add: built_def w1_def made_dirs_idem sn[symmetric])
  have "build_item self p (Dict d) w = build_structure self p d w1"
    by (simp add: seq_io_apply mk)
  then show ?case
    unfolding rec b by (simp add: w1_def)
next
  case (4 self p content)
  let ?root = "project_root self"
  have p: "p = butlast p @ [last p]" using "4.prems"(3) by simp
  have dd: "''..'' \<notin> set (butlast p)" using "4.prems"(2) by (auto dest: in_set_butlastD)
  define w1 where "w1 = w\<lparr>fs := made_dirs (fs w) (butlast p), trace := trace w @ [Mkdir (butlast p)]\<rparr>"
  have mk: "mkdir_io (parent p) w = (Inr (), w1)"
    unfolding w1_def parent_def by (rule mkdir_io_ok[OF dd "4.prems"(5)])
  have d1: "\<forall>q. strict_prefix q p \<longrightarrow> is_dir (fs w1) q"
  proof (intro allI impI)
    fix q assume "strict_prefix q p"
    then have "prefix q (butlast p)" using p strict_prefix_snoc_iff by metis
    then show "is_dir (fs w1) q" by (simp add: w1_def is_dir_made_dirs)
  qed
  have "\<not> prefix p (butlast p)" using p not_prefix_snoc_self[of "butlast p" "last p" "butlast p"] by simp
  then have "fs w1 p = None" using "4.prems"(6) by (simp add: w1_def made_dirs_def)
  then have d2: "\<not> is_dir (fs w1) p" using "4.prems"(3) by (simp add: is_dir_def)
  have "build_item self p (Str content) w = create_file self p content w1"
    by (simp add: seq_io_apply mk)
  then show ?case
    unfolding create_file_new[OF "4.prems"(2) d1 d2 "4.prems"(4)]
    by (simp add: w1_def fun_upd_def)
qed

subsection \<open>Sequencing, the abort path and the trace of \<^verbatim>\<open>create\<close>\<close>

lemma bind_io_apply:
  "bind_io m k w = (case m w of (Inl e, w') \<Rightarrow> (Inl e, w') | (Inr x, w') \<Rightarrow> k x w')"
  by (simp add: bind_io_def)

lemma seq_print: "seq_io (print l) k w = k (w\<lparr>out := out w @ [l]\<rparr>)"
  by (simp add: seq_io_apply print_def)

lemma bind_exists:
  "bind_io (exists_io p) k w = k (path_exists (fs w) p) (w\<lparr>trace := trace w @ [Exists p]\<rparr>)"
  by (simp add: bind_io_apply exists_io_def)


lemma seq_exit: "seq_io (sys_exit n) k w = (Inl (SystemExit n), w)"
  by (simp add: seq_io_apply sys_exit_def raise_io_def)

lemma seq_assoc: "seq_io (seq_io a b) c = seq_io a (seq_io b c)"
  by (rule ext) (simp add: seq_io_apply split: prod.splits sum.splits)

lemma create_existing:
  assumes "path_exists (fs w) (project_root self)"
  shows "create self w =
    (Inl (SystemExit 1),
     w\<lparr>out := out w @ [creating_line self, exists_line self],
       trace := trace w @ [Exists (project_root self)]\<rparr>)"
  using assms
  by (simp add: create_def seq_print bind_exists seq_assoc seq_exit)

lemma quietI:
  "(\<And>w. \<exists>calls. trace (snd (m w)) = trace w @ calls \<and> (\<forall>p. Exists p \<notin> set calls)) \<Longrightarrow> quiet m"
  by (simp add: quiet_def)

lemma quiet_return [simp]: "quiet (return_io x)"
  by (simp add: quiet_def return_io_def)

lemma quiet_raise [simp]: "quiet (raise_io e)"
  by (simp add: quiet_def raise_io_def)

lemma quiet_sys_exit [simp]: "quiet (sys_exit n)"
  by (simp add: sys_exit_def)

lemma quiet_print [simp]: "quiet (print l)"
  by (simp add: quiet_def print_def)

lemma quiet_mkdir_io [simp]: "quiet (mkdir_io p)"
  by (auto simp: quiet_def mkdir_io_def split: prod.splits)

lemma quiet_write_io [simp]: "quiet (write_io p c)"
  by (auto simp: quiet_def write_io_def split: sum.splits)

lemma quiet_bind:
  assumes "quiet m" "\<And>x. quiet (k x)"
  shows "quiet (bind_io m k)"
proof (rule quietI)
  fix w
  obtain r w1 where m: "m w = (r, w1)" by (cases "m w")
  from assms(1) obtain c1 where c1: "trace w1 = trace w @ c1" "\<forall>p. Exists p \<notin> set c1"
    unfolding quiet_def using m by (metis snd_conv)
  show "\<exists>calls. trace (snd (bind_io m k w)) = trace w @ calls \<and> (\<forall>p. Exists p \<notin> set calls)"
  proof (cases r)
    case (Inl e)
    with m c1 show ?thesis by (auto simp: bind_io_apply)
  next
    case (Inr x)
    from assms(2)[of x] obtain c2 where c2: "trace (snd (k x w1)) = trace w1 @ c2" "\<forall>p. Exists p \<notin> set c2"
      unfolding quiet_def by blast
    have "trace (snd (bind_io m k w)) = trace w @ (c1 @ c2)"
      using m Inr c1 c2 by (simp add: bind_io_apply)
    moreover have "\<forall>p. Exists p \<notin> set (c1 @ c2)" using c1 c2 by simp
    ultimately show ?thesis by blast
  qed
qed

lemma quiet_seq [simp]: "quiet m \<Longrightarrow> quiet k \<Longrightarrow> quiet (seq_io m k)"
  by (simp add: seq_io_def quiet_bind)

lemma quiet_create_file [simp]: "quiet (create_file self p c)"
proof -
  have "quiet (\<lambda>w. case relative_to p (project_root self) of
               Inl e \<Rightarrow> raise_io e w
             | Inr rel \<Rightarrow> print (created_line rel) w)"
    by (cases "relative_to p (project_root self)") simp_all
  then show ?thesis by (simp add: create_file_def)
qed

lemma quiet_build:
  "quiet (build_structure self base s)"
  "quiet (build_item self p t)"
  by (induction self base s and self p t rule: build_structure_build_item.induct) simp_all

lemma quiet_print_all [simp]: "quiet (print_all ls)"
  by (induction ls) simp_all

lemma quiet_structures [simp]:
  "quiet (create_portfolio_structure self)"
  "quiet (create_api_structure self)"
  "quiet (create_fullstack_structure self)"
  by (simp_all add: create_portfolio_structure_def create_api_structure_def
      create_fullstack_structure_def quiet_build)

lemma create_trace:
  "\<exists>calls. trace (snd (create self w)) = trace w @ Exists (project_root self) # calls
      \<and> (\<forall>p. Exists p \<notin> set calls)"
proof -
  let ?k = "\<lambda>found. seq_io (if found then seq_io (print (exists_line self)) (sys_exit 1) else return_io ())
    (seq_io (if project_type self = ''portfolio'' then create_portfolio_structure self
             else if project_type self = ''api'' then create_api_structure self
             else if project_type self = ''fullstack'' then create_fullstack_structure self
             else seq_io (print (unknown_type_line self)) (sys_exit 1))
            (print_all (success_lines self)))"
  let ?w1 = "w\<lparr>out := out w @ [creating_line self], trace := trace w @ [Exists (project_root self)]\<rparr>"
  have q: "quiet (?k found)" for found by simp
  have c: "create self w = ?k (path_exists (fs w) (project_root self)) ?w1"
    unfolding create_def seq_print bind_exists by simp
  from q[of "path_exists (fs w) (project_root self)"]
  obtain calls where "trace (snd (?k (path_exists (fs w) (project_root self)) ?w1)) = trace ?w1 @ calls"
    "\<forall>p. Exists p \<notin> set calls"
    unfolding quiet_def by blast
  then show ?thesis unfolding c by auto
qed

subsection \<open>The examples\<close>


lemma taken_root [simp]: "project_root (init taken_world ''demo'' t) = [''home'', ''demo'']"
  by (simp add: init_def taken_world_def demo_world_def joinpath_def is_absolute_def parse_parts_def)

lemma taken_exists: "path_exists (fs taken_world) [''home'', ''demo'']"
  by (simp add: taken_world_def demo_world_def path_exists_def stat_def is_dir_def)


lemma lines_differ:
  "unknown_type_line self \<noteq> exists_line self'"
  "unknown_type_line self \<noteq> creating_line self'"
  by (simp_all add: unknown_type_line_def exists_line_def creating_line_def)

subsection \<open>Output and type do not steer the builder\<close>

lemma out_blindD:
  "out_blind m \<Longrightarrow> m (w\<lparr>out := a @ out w\<rparr>) = (case m w of (r, w') \<Rightarrow> (r, w'\<lparr>out := a @ out w'\<rparr>))"
  by (simp add: out_blind_def)

lemma blind_return [simp]: "out_blind (return_io x)"
  by (simp add: out_blind_def return_io_def)

lemma blind_raise [simp]: "out_blind (raise_io e)"
  by (simp add: out_blind_def raise_io_def)

lemma blind_sys_exit [simp]: "out_blind (sys_exit n)"
  by (simp add: sys_exit_def)

lemma blind_print [simp]: "out_blind (print l)"
  by (simp add: out_blind_def print_def)

lemma blind_exists_io [simp]: "out_blind (exists_io p)"
  by (simp add: out_blind_def exists_io_def)

lemma blind_mkdir_io [simp]: "out_blind (mkdir_io p)"
  by (simp add: out_blind_def mkdir_io_def split: prod.splits)

lemma blind_write_io [simp]: "out_blind (write_io p c)"
  by (simp add: out_blind_def write_io_def split: sum.splits)

lemma blind_bind:
  assumes "out_blind m" "\<And>x. out_blind (k x)"
  shows "out_blind (bind_io m k)"
  unfolding out_blind_def
proof (intro allI)
  fix a w
  obtain r w1 where m: "m w = (r, w1)" by (cases "m w")
  have m': "m (w\<lparr>out := a @ out w\<rparr>) = (r, w1\<lparr>out := a @ out w1\<rparr>)"
    using out_blindD[OF assms(1), where w = w and a = a] m by simp
  show "bind_io m k (w\<lparr>out := a @ out w\<rparr>) =
      (case bind_io m k w of (r, w') \<Rightarrow> (r, w'\<lparr>out := a @ out w'\<rparr>))"
  proof (cases r)
    case (Inl e)
    with m m' show ?thesis by (simp add: bind_io_apply)
  next
    case (Inr x)
    with m m' out_blindD[OF assms(2), where w = w1 and a = a, of x] show ?thesis by (simp add: bind_io_apply)
  qed
qed

lemma blind_seq [simp]: "out_blind m \<Longrightarrow> out_blind k \<Longrightarrow> out_blind (seq_io m k)"
  by (simp add: seq_io_def blind_bind)

lemma blind_create_file [simp]: "out_blind (create_file self p c)"
proof -
  have "out_blind (\<lambda>w. case relative_to p (project_root self) of
               Inl e \<Rightarrow> raise_io e w
             | Inr rel \<Rightarrow> print (created_line rel) w)"
    by (cases "relative_to p (project_root self)") simp_all
  then show ?thesis by (simp add: create_file_def)
qed

lemma blind_build:
  "out_blind (build_structure self base s)"
  "out_blind (build_item self p t)"
  by (induction self base s and self p t rule: build_structure_build_item.induct) simp_all

lemma blind_print_all [simp]: "out_blind (print_all ls)"
  by (induction ls) simp_all

lemma blind_structures [simp]:
  "out_blind (create_portfolio_structure self)"
  "out_blind (create_api_structure self)"
  "out_blind (create_fullstack_structure self)"
  by (simp_all add: create_portfolio_structure_def create_api_structure_def
      create_fullstack_structure_def blind_build)

lemma create_file_type [simp]:
  "create_file (self\<lparr>project_type := t\<rparr>) p c = create_file self p c"
  by (simp add: create_file_def)

lemma build_type:
  "build_structure (self\<lparr>project_type := t\<rparr>) base s = build_structure self base s"
  "build_item (self\<lparr>project_type := t\<rparr>) p x = build_item self p x"
  by (induction self base s and self p x rule: build_structure_build_item.induct) simp_all

lemma get_readme_type [simp]: "get_readme (self\<lparr>project_type := t\<rparr>) = get_readme self"
  by (simp add: get_readme_def)

lemma portfolio_type:
  "create_portfolio_structure (self\<lparr>project_type := t\<rparr>) = create_portfolio_structure self"
  by (simp add: create_portfolio_structure_def build_type)

lemma success_lines_type [simp]: "success_lines (self\<lparr>project_type := t\<rparr>) = success_lines self"
  by (simp add: success_lines_def)

lemma exists_line_type [simp]: "exists_line (self\<lparr>project_type := t\<rparr>) = exists_line self"
  by (simp add: exists_line_def)

lemma blind_portfolio_run: "out_blind (portfolio_run self)"
  unfolding portfolio_run_def by (intro blind_bind) simp_all

lemma create_as_portfolio_run:
  assumes "project_type self = ''portfolio'' \<or> project_type self = ''fullstack''"
  shows "create self w = portfolio_run (self\<lparr>project_type := ''portfolio''\<rparr>) (w\<lparr>out := out w @ [creating_line self]\<rparr>)"
  using assms
  by (auto simp: create_def seq_print portfolio_run_def create_fullstack_structure_def
      portfolio_type[where self = self and t = "''portfolio''"] cong: if_cong)

lemma fullstack_as_portfolio:
  "\<exists>r w' lines.
      create (init w name ''fullstack'') w
        = (r, w'\<lparr>out := out w @ creating_line (init w name ''fullstack'') # lines\<rparr>)
    \<and> create (init w name ''portfolio'') w
        = (r, w'\<lparr>out := out w @ creating_line (init w name ''portfolio'') # lines\<rparr>)"
proof -
  let ?sf = "init w name ''fullstack''" and ?sp = "init w name ''portfolio''"
  let ?w0 = "w\<lparr>out := []\<rparr>"
  have same: "?sf\<lparr>project_type := ''portfolio''\<rparr> = ?sp\<lparr>project_type := ''portfolio''\<rparr>"
    by (simp add: init_def)
  obtain r w1 where run: "portfolio_run (?sp\<lparr>project_type := ''portfolio''\<rparr>) ?w0 = (r, w1)"
    by (cases "portfolio_run (?sp\<lparr>project_type := ''portfolio''\<rparr>) ?w0")
  have shift: "portfolio_run (?sp\<lparr>project_type := ''portfolio''\<rparr>) (w\<lparr>out := out w @ [l]\<rparr>)
      = (r, w1\<lparr>out := (out w @ [l]) @ out w1\<rparr>)" for l
    using out_blindD[OF blind_portfolio_run, where w = ?w0 and a = "out w @ [l]", of "?sp\<lparr>project_type := ''portfolio''\<rparr>"] run
    by simp
  have f: "create ?sf w = (r, w1\<lparr>out := (out w @ [creating_line ?sf]) @ out w1\<rparr>)"
    using create_as_portfolio_run[of ?sf w] shift[of "creating_line ?sf"]
    by (simp add: same) (simp add: init_def)
  have p: "create ?sp w = (r, w1\<lparr>out := (out w @ [creating_line ?sp]) @ out w1\<rparr>)"
    using create_as_portfolio_run[of ?sp w] shift[of "creating_line ?sp"]
    by (simp add: init_def)
  show ?thesis
    apply (rule exI[of _ r], rule exI[of _ w1], rule exI[of _ "out w1"])
    using f p by simp
qed

subsection \<open>The catalog on a clear target\<close>


lemma wf_api: "wf_structure api_structure"
  by (simp add: api_structure_def plain_name_def)



lemma structures_nonempty: "portfolio_structure \<noteq> []" "api_structure \<noteq> []"
  by (simp_all add: portfolio_structure_def api_structure_def)

lemma wf_fs_ancestors:
  "wf_fs f \<Longrightarrow> f (q @ r) \<noteq> None \<Longrightarrow> r \<noteq> [] \<Longrightarrow> is_dir f q"
proof (induction r rule: rev_induct)
  case Nil
  then show ?case by simp
next
  case (snoc x r')
  from snoc.prems(1,2) have d: "is_dir f (q @ r')"
    unfolding wf_fs_def by (metis append.assoc butlast_snoc)
  show ?case
  proof (cases "r' = []")
    case True
    with d show ?thesis by simp
  next
    case False
    with d have "f (q @ r') \<noteq> None" by (auto simp: is_dir_def)
    from snoc.IH[OF snoc.prems(1) this False] show ?thesis .
  qed
qed

lemma wf_fs_below:
  assumes "wf_fs f" "f p = None" "p \<noteq> []" "prefix p q"
  shows "f q = None"
proof (rule ccontr)
  assume n: "f q \<noteq> None"
  from assms(4) obtain r where q: "q = p @ r" by (auto simp: prefix_def)
  with n assms(2) have "r \<noteq> []" by auto
  from wf_fs_ancestors[OF assms(1) n[unfolded q] this] assms(2,3) show False
    by (simp add: is_dir_def)
qed

lemma clear_targetD:
  assumes "clear_target f root"
  shows "root \<noteq> []" "''..'' \<notin> set root" "no_file_above f root" "\<forall>q. prefix root q \<longrightarrow> f q = None"
proof -
  from assms have c: "wf_fs f" "''..'' \<notin> set root" "no_file_above f root" "\<not> path_exists f root"
    by (simp_all add: clear_target_def)
  show r: "root \<noteq> []" using c(4) by (auto simp: path_exists_def stat_def)
  show "''..'' \<notin> set root" "no_file_above f root" by fact+
  have "f root = None"
  proof (rule ccontr)
    assume n: "f root \<noteq> None"
    have "\<forall>q. strict_prefix q root \<longrightarrow> is_dir f ([] @ q)"
    proof (intro allI impI)
      fix q assume "strict_prefix q root"
      then obtain r where "root = q @ r" "r \<noteq> []" by (auto simp: strict_prefix_def prefix_def)
      with wf_fs_ancestors[OF c(1), of q r] n show "is_dir f ([] @ q)" by simp
    qed
    from walk_plain[OF c(2) this] have "walk f [] root = Inr root" by simp
    with n r have "path_exists f root" by (auto simp: path_exists_def stat_def)
    with c(4) show False by simp
  qed
  with c(1) r show "\<forall>q. prefix root q \<longrightarrow> f q = None" by (auto intro: wf_fs_below)
qed



lemma built_other:
  "q \<notin> fst ` set (tree_nodes base s) \<Longrightarrow> built f base s q = (if s = [] then f q else made_dirs f base q)"
  by (simp add: built_def apply_nodes_other)








lemma seq_return_right: "seq_io m (return_io ()) = m"
  by (rule ext) (simp add: seq_io_apply return_io_def split: prod.splits sum.splits)



lemma as_items_simps [simp]:
  "as_items [] = []"
  "as_items ((n, c) # rest) = (n, Str c) # as_items rest"
  by (simp_all add: as_items_def)





subsection \<open>The example worlds\<close>

lemma demo_self_root [simp]: "project_root demo_self = [''home'', ''demo'']"
  by (simp add: demo_self_def init_def demo_world_def joinpath_def is_absolute_def parse_parts_def)

lemma demo_fs: "fs demo_world = [[''home''] \<mapsto> DirN]"
  by (simp add: demo_world_def)

lemma demo_wf: "wf_fs (fs demo_world)"
  by (auto simp: wf_fs_def demo_fs is_dir_def split: if_splits)

lemma demo_clear: "clear_target (fs demo_world) [''home'', ''demo'']"
  unfolding clear_target_def
proof (intro conjI)
  show "wf_fs (fs demo_world)" by (rule demo_wf)
  show "''..'' \<notin> set [''home'', ''demo'']" by simp
  show "no_file_above (fs demo_world) [''home'', ''demo'']"
    by (auto simp: no_file_above_def demo_fs)
  show "\<not> path_exists (fs demo_world) [''home'', ''demo'']"
    by (simp add: demo_fs path_exists_def stat_def is_dir_def)
qed

subsection \<open>Nodes and their entries\<close>

lemma nodes_strictly_below:
  assumes "(q, k) \<in> set (tree_nodes base s)"
  shows "strict_prefix base q"
proof -
  from nodes_below(1)[OF assms] obtain n where "prefix (base @ [n]) q" by blast
  then obtain r where "q = base @ n # r" by (auto simp: prefix_def)
  then show ?thesis by (simp add: strict_prefix_def)
qed

lemma item_nodes_below: "(q, k) \<in> set (item_nodes p t) \<Longrightarrow> prefix p q"
  by (rule nodes_below(2))

lemma distinct_nodes:
  "wf_structure s \<Longrightarrow> distinct (map fst (tree_nodes base s))"
  "wf_item t \<Longrightarrow> distinct (map fst (item_nodes p t))"
proof (induction base s and p t rule: tree_nodes_item_nodes.induct)
  case (1 base)
  then show ?case by simp
next
  case (2 base name content rest)
  have disj: "fst ` set (item_nodes (base @ [name]) content) \<inter> fst ` set (tree_nodes base rest) = {}"
  proof (rule ccontr)
    assume "\<not> ?thesis"
    then obtain q k k' where a: "(q, k) \<in> set (item_nodes (base @ [name]) content)"
      and b: "(q, k') \<in> set (tree_nodes base rest)" by fastforce
    from nodes_below(1)[OF b] obtain m where m: "m \<in> fst ` set rest" "prefix (base @ [m]) q" by blast
    from prefix_snoc_diff[OF item_nodes_below[OF a] m(2)] m(1) "2.prems" show False by simp
  qed
  from 2 disj show ?case by simp
next
  case (3 p d)
  have "p \<notin> fst ` set (tree_nodes p d)"
    using nodes_strictly_below[of p _ p d] by (auto simp: strict_prefix_def)
  with 3 show ?case by simp
next
  case (4 p content)
  then show ?case by simp
qed

lemma apply_nodes_distinct:
  "distinct (map fst ns) \<Longrightarrow> (p, k) \<in> set ns \<Longrightarrow> apply_nodes ns f p = Some k"
proof (induction ns arbitrary: f)
  case Nil
  then show ?case by simp
next
  case (Cons a ns)
  obtain p' k' where a: "a = (p', k')" by (cases a)
  show ?case
  proof (cases "(p, k) = a")
    case True
    with Cons.prems(1) a have "p \<notin> fst ` set ns" by auto
    with True a show ?thesis by (simp add: apply_nodes_other)
  next
    case False
    with Cons a show ?thesis by auto
  qed
qed

lemma built_node:
  "wf_structure s \<Longrightarrow> (p, k) \<in> set (tree_nodes base s) \<Longrightarrow> built f base s p = Some k"
  by (simp add: built_def apply_nodes_distinct distinct_nodes)

lemma wf_logo: "wf_structure logo_tree"
  by (simp add: logo_tree_def plain_name_def)

lemma demo_build_slash:
  "build_structure demo_self [''home'', ''demo''] slash_tree demo_world =
     (Inr (), demo_world\<lparr>fs := [[''home''] \<mapsto> DirN, [''home'', ''demo''] \<mapsto> DirN,
                                 [''home'', ''demo'', ''a''] \<mapsto> DirN,
                                 [''home'', ''demo'', ''a'', ''b''] \<mapsto> FileN ''x''],
                         out := [created_line [''a'', ''b'']],
                         trace := [Mkdir [''home'', ''demo'', ''a''], Open [''home'', ''demo'', ''a'', ''b'']]\<rparr>)"
proof -
  let ?w1 = "demo_world\<lparr>fs := made_dirs (fs demo_world) [''home'', ''demo'', ''a''],
                        trace := trace demo_world @ [Mkdir [''home'', ''demo'', ''a'']]\<rparr>"
  have jp: "joinpath [''home'', ''demo''] ''a/b'' = [''home'', ''demo'', ''a'', ''b'']"
    by (simp add: joinpath_def is_absolute_def parse_parts_def)
  have nfa: "no_file_above (fs demo_world) [''home'', ''demo'', ''a'']"
    by (auto simp: no_file_above_def demo_fs)
  have mk: "mkdir_io [''home'', ''demo'', ''a''] demo_world = (Inr (), ?w1)"
    by (rule mkdir_io_ok[OF _ nfa]) simp
  have md: "made_dirs (fs demo_world) [''home'', ''demo'', ''a'']
      = [[''home''] \<mapsto> DirN, [''home'', ''demo''] \<mapsto> DirN, [''home'', ''demo'', ''a''] \<mapsto> DirN]"
    by (rule ext) (auto simp: made_dirs_def demo_fs prefix_Cons split: list.splits)
  have d1: "\<forall>q. strict_prefix q [''home'', ''demo'', ''a'', ''b''] \<longrightarrow> is_dir (fs ?w1) q"
    using strict_prefix_snoc_iff[of _ "[''home'', ''demo'', ''a'']" "''b''"]
    by (simp add: is_dir_made_dirs)
  have d2: "\<not> is_dir (fs ?w1) [''home'', ''demo'', ''a'', ''b'']"
    by (simp add: md is_dir_def)
  have cf: "create_file demo_self [''home'', ''demo'', ''a'', ''b''] ''x'' ?w1 =
    (Inr (), ?w1\<lparr>fs := (fs ?w1)([''home'', ''demo'', ''a'', ''b''] \<mapsto> FileN ''x''),
                out := out ?w1 @ [created_line (drop (length (project_root demo_self)) [''home'', ''demo'', ''a'', ''b''])],
                trace := trace ?w1 @ [Open [''home'', ''demo'', ''a'', ''b'']]\<rparr>)"
    by (rule create_file_new[OF _ d1 d2]) simp_all
  have "build_structure demo_self [''home'', ''demo''] slash_tree demo_world
      = create_file demo_self [''home'', ''demo'', ''a'', ''b''] ''x'' ?w1"
    by (simp add: slash_tree_def jp seq_io_apply parent_def mk seq_return_right)
  then show ?thesis
    unfolding cf by (simp add: md) (simp add: demo_world_def)
qed

lemma tree_nodes_shift:
  "tree_nodes (a @ b) s = map (\<lambda>(p, k). (a @ p, k)) (tree_nodes b s)"
  "item_nodes (a @ p) t = map (\<lambda>(p, k). (a @ p, k)) (item_nodes p t)"
  by (induction b s and p t rule: tree_nodes_item_nodes.induct) simp_all

lemma tree_files_shift: "tree_files a s = map ((@) a) (tree_files [] s)"
proof -
  have "tree_nodes a s = map (\<lambda>(p, k). (a @ p, k)) (tree_nodes [] s)"
    using tree_nodes_shift(1)[of a "[]" s] by simp
  then show ?thesis
    by (simp add: tree_files_def filter_map comp_def case_prod_unfold)
qed

lemma created_lines_relative:
  "map (\<lambda>p. created_line (drop (length root) p)) (tree_files root s)
    = map created_line (tree_files [] s)"
  by (subst tree_files_shift) (simp add: comp_def)

lemma tree_dirs_nodes: "p \<in> set (tree_dirs base s) \<Longrightarrow> (p, DirN) \<in> set (tree_nodes base s)"
  by (auto simp: tree_dirs_def)

lemma logo_files: "tree_files [] logo_tree = [[''img'', ''favicon.ico'']]"
  by (simp add: logo_tree_def)

lemma files_count:
  "length (tree_files [] portfolio_structure) = 59"
  "length (tree_dirs [] portfolio_structure) = 24"
  "length (tree_files [] api_structure) = 12"
  "length (tree_dirs [] api_structure) = 5"
  by (simp_all add: portfolio_structure_def api_structure_def tree_dirs_def)



subsection \<open>After a run that returned normally\<close>










lemma demo_api_simps [simp]:
  "project_root demo_api = [''home'', ''demo'']" "project_type demo_api = ''api''"
  "project_name demo_api = ''demo''"
  by (simp_all add: demo_api_def init_def demo_world_def joinpath_def is_absolute_def parse_parts_def)

subsection \<open>The README on disk\<close>


lemma as_items_names [simp]: "fst ` set (as_items files) = fst ` set files"
  by (force simp: as_items_def)













subsection \<open>The built-in structures, node by node\<close>

lemma api_nodes:
  "tree_nodes [''home'', ''demo''] api_structure =
    [([''home'', ''demo'', ''app''], DirN),
     ([''home'', ''demo'', ''app'', ''__init__.py''], FileN ''''),
     ([''home'', ''demo'', ''app'', ''main.py''], FileN get_main_py),
     ([''home'', ''demo'', ''app'', ''config.py''], FileN get_config_py),
     ([''home'', ''demo'', ''app'', ''api''], DirN),
     ([''home'', ''demo'', ''app'', ''api'', ''__init__.py''], FileN ''''),
     ([''home'', ''demo'', ''app'', ''api'', ''routes''], DirN),
     ([''home'', ''demo'', ''app'', ''api'', ''routes'', ''__init__.py''], FileN ''''),
     ([''home'', ''demo'', ''app'', ''api'', ''routes'', ''users.py''], FileN ''''),
     ([''home'', ''demo'', ''app'', ''api'', ''routes'', ''auth.py''], FileN ''''),
     ([''home'', ''demo'', ''app'', ''database''], DirN),
     ([''home'', ''demo'', ''app'', ''database'', ''__init__.py''], FileN ''''),
     ([''home'', ''demo'', ''app'', ''database'', ''models.py''], FileN ''''),
     ([''home'', ''demo'', ''app'', ''database'', ''connection.py''], FileN get_connection_py),
     ([''home'', ''demo'', ''tests''], DirN),
     ([''home'', ''demo'', ''tests'', ''__init__.py''], FileN ''''),
     ([''home'', ''demo'', ''tests'', ''test_api.py''], FileN '''')]"
  by (simp add: api_structure_def)

lemma api_files:
  "tree_files [] api_structure =
    [[''app'', ''__init__.py''], [''app'', ''main.py''], [''app'', ''config.py''],
     [''app'', ''api'', ''__init__.py''], [''app'', ''api'', ''routes'', ''__init__.py''],
     [''app'', ''api'', ''routes'', ''users.py''], [''app'', ''api'', ''routes'', ''auth.py''],
     [''app'', ''database'', ''__init__.py''], [''app'', ''database'', ''models.py''],
     [''app'', ''database'', ''connection.py''], [''tests'', ''__init__.py''],
     [''tests'', ''test_api.py'']]"
  by (simp add: api_structure_def)

lemma leaves_count:
  "tree_leaves [] logo_tree = [[''img'', ''logo''], [''img'', ''favicon.ico'']]"
  "length (tree_leaves [] portfolio_structure) = 63"
  by (simp_all add: logo_tree_def portfolio_structure_def)


section \<open>The claims\<close>

subsection \<open>C1: an existing root\<close>

text \<open>
  Claim C1. For every scaffolder (every project name and type) and every world: if the
  root exists when \<^verbatim>\<open>create\<close> is called, the run ends with \<^verbatim>\<open>sys.exit(1)\<close>, a non-zero exit
  status, after printing the line that the directory already exists; the file system is
  what it was (nothing is created), and the only file system call made is the one check
  of the root. In every run, whatever its outcome, the check of the root is the first
  file system call and no other existence check follows it.
\<close>

theorem create_aborts_when_root_exists:
  "(path_exists (fs w) (project_root self) \<longrightarrow>
       fst (create self w) = Inl (SystemExit 1)
     \<and> exit_status (SystemExit 1) \<noteq> 0
     \<and> fs (snd (create self w)) = fs w
     \<and> out (snd (create self w)) = out w @ [creating_line self, exists_line self]
     \<and> trace (snd (create self w)) = trace w @ [Exists (project_root self)])
   \<and> (\<exists>calls. trace (snd (create self w)) = trace w @ Exists (project_root self) # calls
         \<and> (\<forall>p. Exists p \<notin> set calls))"
proof (intro conjI impI)
  assume "path_exists (fs w) (project_root self)"
  then have c: "create self w =
    (Inl (SystemExit 1),
     w\<lparr>out := out w @ [creating_line self, exists_line self],
       trace := trace w @ [Exists (project_root self)]\<rparr>)"
    by (rule create_existing)
  show "fst (create self w) = Inl (SystemExit 1)" by (simp add: c)
  show "exit_status (SystemExit 1) \<noteq> 0" by simp
  show "fs (snd (create self w)) = fs w" by (simp add: c)
  show "out (snd (create self w)) = out w @ [creating_line self, exists_line self]"
    by (simp add: c)
  show "trace (snd (create self w)) = trace w @ [Exists (project_root self)]" by (simp add: c)
next
  show "\<exists>calls. trace (snd (create self w)) = trace w @ Exists (project_root self) # calls
         \<and> (\<forall>p. Exists p \<notin> set calls)"
    by (rule create_trace)
qed

theorem create_aborts_when_root_exists_witness:
  "path_exists (fs taken_world) (project_root (init taken_world ''demo'' ''api''))
   \<and> fst (create (init taken_world ''demo'' ''api'') taken_world) = Inl (SystemExit 1)
   \<and> fs (snd (create (init taken_world ''demo'' ''api'') taken_world)) = fs taken_world
   \<and> trace (snd (create (init taken_world ''demo'' ''api'') taken_world)) = [Exists [''home'', ''demo'']]"
proof -
  have e: "path_exists (fs taken_world) (project_root (init taken_world ''demo'' ''api''))"
    using taken_exists by simp
  have t: "trace taken_world = []" by (simp add: taken_world_def demo_world_def)
  from create_aborts_when_root_exists[of taken_world "init taken_world ''demo'' ''api''"] e t
  show ?thesis by simp
qed

subsection \<open>C2: one entry for every node\<close>

text \<open>
  Claim C2, as amended. The claim as stated fails for a name that is not one path
  component: the one item \<^verbatim>\<open>a/b\<close> makes a directory \<^verbatim>\<open>a\<close> and a file \<^verbatim>\<open>b\<close> in it (the
  counterexample follows the witness). For every well-formed structure (plain names)
  and every clear target (the root does not exist, has no \<^verbatim>\<open>..\<close> part, and nothing on the
  way to it is a file), \<^verbatim>\<open>_build_structure\<close> returns normally; the nodes of the structure
  have pairwise different paths; every node's path lies strictly below the root, was
  vacant before, and holds exactly that node afterwards (a directory, or the file with
  its content); and every other path is as before, except that for a non-empty structure
  the root and the directories on the way to it now exist. An empty structure creates
  nothing, not even the root.
\<close>

theorem build_structure_lays_out_tree:
  assumes "wf_structure s" and "clear_target (fs w) (project_root self)"
  shows "fst (build_structure self (project_root self) s w) = Inr ()
    \<and> distinct (map fst (tree_nodes (project_root self) s))
    \<and> (\<forall>(p, k) \<in> set (tree_nodes (project_root self) s).
          strict_prefix (project_root self) p \<and> fs w p = None
          \<and> fs (snd (build_structure self (project_root self) s w)) p = Some k)
    \<and> (\<forall>q. q \<notin> fst ` set (tree_nodes (project_root self) s) \<longrightarrow>
          fs (snd (build_structure self (project_root self) s w)) q
            = (if s \<noteq> [] \<and> prefix q (project_root self) \<and> q \<noteq> [] then Some DirN else fs w q))"
proof -
  let ?root = "project_root self"
  note c = clear_targetD[OF assms(2)]
  have b: "build_structure self ?root s w =
        (Inr (), w\<lparr>fs := built (fs w) ?root s,
                    out := out w @ map (\<lambda>p. created_line (drop (length ?root) p)) (tree_files ?root s),
                    trace := trace w @ tree_calls ?root s\<rparr>)"
  proof (rule build_ok(1)[OF assms(1) c(2) _ c(3)])
    show "prefix ?root ?root" by simp
    show "\<forall>n \<in> fst ` set s. \<forall>q. prefix (?root @ [n]) q \<longrightarrow> fs w q = None"
      using c(4) by (auto dest: append_prefixD)
  qed
  have 1: "fst (build_structure self ?root s w) = Inr ()" by (simp add: b)
  have 2: "distinct (map fst (tree_nodes ?root s))" by (rule distinct_nodes(1)[OF assms(1)])
  have 3: "\<forall>(p, k) \<in> set (tree_nodes ?root s).
          strict_prefix ?root p \<and> fs w p = None
          \<and> fs (snd (build_structure self ?root s w)) p = Some k"
  proof (intro ballI, clarify, intro conjI)
    fix p k assume n: "(p, k) \<in> set (tree_nodes ?root s)"
    show sp: "strict_prefix ?root p" using n by (rule nodes_strictly_below)
    then show "fs w p = None" using c(4) by (simp add: strict_prefix_def)
    show "fs (snd (build_structure self ?root s w)) p = Some k"
      by (simp add: b built_node[OF assms(1) n])
  qed
  have 4: "\<forall>q. q \<notin> fst ` set (tree_nodes ?root s) \<longrightarrow>
          fs (snd (build_structure self ?root s w)) q
            = (if s \<noteq> [] \<and> prefix q ?root \<and> q \<noteq> [] then Some DirN else fs w q)"
    by (simp add: b built_other made_dirs_def)
  from 1 2 3 4 show ?thesis by blast
qed

theorem build_structure_lays_out_tree_witness:
  "wf_structure api_structure \<and> clear_target (fs demo_world) (project_root demo_api)
   \<and> fst (build_structure demo_api (project_root demo_api) api_structure demo_world) = Inr ()
   \<and> fs (snd (build_structure demo_api (project_root demo_api) api_structure demo_world))
        [''home'', ''demo'', ''app'', ''main.py''] = Some (FileN get_main_py)
   \<and> fs (snd (build_structure demo_api (project_root demo_api) api_structure demo_world))
        [''home'', ''demo'', ''app'', ''api'', ''routes''] = Some DirN
   \<and> fs (snd (build_structure demo_api (project_root demo_api) api_structure demo_world))
        [''home'', ''demo''] = Some DirN
   \<and> fs (snd (build_structure demo_api (project_root demo_api) api_structure demo_world))
        [''home'', ''demo'', ''static''] = None
   \<and> fs (snd (build_structure demo_api (project_root demo_api) api_structure demo_world))
        [''home'', ''other''] = None"
proof -
  have c: "clear_target (fs demo_world) (project_root demo_api)" using demo_clear by simp
  note t = build_structure_lays_out_tree[OF wf_api c]
  from t wf_api c show ?thesis
    by (simp add: api_nodes structures_nonempty demo_fs)
qed

text \<open>
  The counterexample to C2 as stated: in the empty working directory \<^verbatim>\<open>/home\<close>, the
  structure with the single item \<^verbatim>\<open>a/b\<close> (a file with content \<^verbatim>\<open>x\<close>) is built below the root
  \<^verbatim>\<open>/home/demo\<close>, which does not exist. The structure has one node, yet two entries are
  created below the root, nested in each other: the directory \<^verbatim>\<open>a\<close> and the file
  \<^verbatim>\<open>a/b\<close>.
\<close>

theorem slash_name_makes_two_entries:
  "tree_nodes (project_root demo_self) slash_tree = [([''home'', ''demo'', ''a/b''], FileN ''x'')]
   \<and> \<not> path_exists (fs demo_world) (project_root demo_self)
   \<and> fst (build_structure demo_self (project_root demo_self) slash_tree demo_world) = Inr ()
   \<and> fs demo_world [''home'', ''demo'', ''a''] = None
   \<and> fs (snd (build_structure demo_self (project_root demo_self) slash_tree demo_world))
        [''home'', ''demo'', ''a''] = Some DirN
   \<and> fs demo_world [''home'', ''demo'', ''a'', ''b''] = None
   \<and> fs (snd (build_structure demo_self (project_root demo_self) slash_tree demo_world))
        [''home'', ''demo'', ''a'', ''b''] = Some (FileN ''x'')
   \<and> fs (snd (build_structure demo_self (project_root demo_self) slash_tree demo_world))
        [''home'', ''demo'', ''a/b''] = None"
proof -
  have "\<not> path_exists (fs demo_world) (project_root demo_self)"
    using demo_clear by (simp add: clear_target_def)
  then show ?thesis
    by (simp add: demo_build_slash) (simp add: slash_tree_def demo_fs)
qed

subsection \<open>C3: creating twice\<close>



subsection \<open>C4: an unknown type\<close>



subsection \<open>C5: fullstack and portfolio\<close>

text \<open>
  Claim C5. For every project name and every world, \<^verbatim>\<open>create\<close> with type \<^verbatim>\<open>fullstack\<close> and
  \<^verbatim>\<open>create\<close> with type \<^verbatim>\<open>portfolio\<close> end the same way and leave the same file system (the
  same directories and files with the same contents) after the same file system calls;
  they print the same lines but for the first, which names the type; and the catalog
  gives both types the same tree.
\<close>

theorem fullstack_same_as_portfolio:
  "fst (create (init w name ''fullstack'') w) = fst (create (init w name ''portfolio'') w)
   \<and> fs (snd (create (init w name ''fullstack'') w)) = fs (snd (create (init w name ''portfolio'') w))
   \<and> trace (snd (create (init w name ''fullstack'') w))
       = trace (snd (create (init w name ''portfolio'') w))
   \<and> (\<exists>lines.
         out (snd (create (init w name ''fullstack'') w))
           = out w @ creating_line (init w name ''fullstack'') # lines
       \<and> out (snd (create (init w name ''portfolio'') w))
           = out w @ creating_line (init w name ''portfolio'') # lines)
   \<and> catalog (init w name ''fullstack'') = catalog (init w name ''portfolio'')"
proof -
  from fullstack_as_portfolio[of w name] obtain r w' lines where
    f: "create (init w name ''fullstack'') w
        = (r, w'\<lparr>out := out w @ creating_line (init w name ''fullstack'') # lines\<rparr>)"
    and p: "create (init w name ''portfolio'') w
        = (r, w'\<lparr>out := out w @ creating_line (init w name ''portfolio'') # lines\<rparr>)"
    by blast
  have c: "catalog (init w name ''fullstack'') = catalog (init w name ''portfolio'')"
    by (simp add: catalog_def init_def portfolio_root_files_def get_readme_def)
  show ?thesis unfolding f p using c by simp
qed

subsection \<open>C6: the catalog is a function of type and name\<close>



subsection \<open>C7: the name in the README and in the root\<close>




subsection \<open>C8: progress lines\<close>

text \<open>
  Claim C8, as amended. The claim as stated fails for directories: they are created
  without a progress line (the counterexample follows the witness). For
  every well-formed structure and every clear target, \<^verbatim>\<open>_build_structure\<close> returns normally
  and prints exactly one line for every file node, in the order of the structure, each
  line showing the file's path relative to the root; every file node's path was vacant
  and holds a file afterwards; every directory node's path was vacant and holds a
  directory afterwards, and no line is printed for it. So the number of lines is the
  number of files of the tree, not the number of its leaves (an empty directory is a
  leaf) and not the number of created paths.
\<close>

theorem one_progress_line_per_file:
  assumes "wf_structure s" and "clear_target (fs w) (project_root self)"
  shows "fst (build_structure self (project_root self) s w) = Inr ()
    \<and> out (snd (build_structure self (project_root self) s w))
        = out w @ map created_line (tree_files [] s)
    \<and> tree_files (project_root self) s = map ((@) (project_root self)) (tree_files [] s)
    \<and> (\<forall>p \<in> set (tree_files (project_root self) s).
          fs w p = None \<and> (\<exists>c. fs (snd (build_structure self (project_root self) s w)) p = Some (FileN c)))
    \<and> (\<forall>p \<in> set (tree_dirs (project_root self) s).
          fs w p = None \<and> fs (snd (build_structure self (project_root self) s w)) p = Some DirN)"
proof -
  let ?root = "project_root self"
  note c = clear_targetD[OF assms(2)]
  have b: "build_structure self ?root s w =
        (Inr (), w\<lparr>fs := built (fs w) ?root s,
                    out := out w @ map (\<lambda>p. created_line (drop (length ?root) p)) (tree_files ?root s),
                    trace := trace w @ tree_calls ?root s\<rparr>)"
  proof (rule build_ok(1)[OF assms(1) c(2) _ c(3)])
    show "prefix ?root ?root" by simp
    show "\<forall>n \<in> fst ` set s. \<forall>q. prefix (?root @ [n]) q \<longrightarrow> fs w q = None"
      using c(4) by (auto dest: append_prefixD)
  qed
  have 1: "fst (build_structure self ?root s w) = Inr ()" by (simp add: b)
  have 2: "out (snd (build_structure self ?root s w)) = out w @ map created_line (tree_files [] s)"
    by (simp add: b created_lines_relative)
  have 3: "tree_files ?root s = map ((@) ?root) (tree_files [] s)" by (rule tree_files_shift)
  have vac: "fs w p = None" if "(p, k) \<in> set (tree_nodes ?root s)" for p k
    using nodes_strictly_below[OF that] c(4) by (simp add: strict_prefix_def)
  have 4: "\<forall>p \<in> set (tree_files ?root s).
          fs w p = None \<and> (\<exists>c. fs (snd (build_structure self ?root s w)) p = Some (FileN c))"
  proof
    fix p assume "p \<in> set (tree_files ?root s)"
    then obtain k where k: "(p, k) \<in> set (tree_nodes ?root s)" "k \<noteq> DirN"
      by (auto simp: tree_files_def)
    then obtain c where "k = FileN c" by (cases k) auto
    with k(1) built_node[OF assms(1) k(1), of "fs w"] vac[OF k(1)]
    show "fs w p = None \<and> (\<exists>c. fs (snd (build_structure self ?root s w)) p = Some (FileN c))"
      by (simp add: b)
  qed
  have 5: "\<forall>p \<in> set (tree_dirs ?root s).
          fs w p = None \<and> fs (snd (build_structure self ?root s w)) p = Some DirN"
  proof
    fix p assume "p \<in> set (tree_dirs ?root s)"
    then have k: "(p, DirN) \<in> set (tree_nodes ?root s)" by (rule tree_dirs_nodes)
    with built_node[OF assms(1) k, of "fs w"] vac[OF k]
    show "fs w p = None \<and> fs (snd (build_structure self ?root s w)) p = Some DirN"
      by (simp add: b)
  qed
  from 1 2 3 4 5 show ?thesis by blast
qed

theorem one_progress_line_per_file_witness:
  "wf_structure api_structure \<and> clear_target (fs demo_world) (project_root demo_api)
   \<and> fst (build_structure demo_api (project_root demo_api) api_structure demo_world) = Inr ()
   \<and> out (snd (build_structure demo_api (project_root demo_api) api_structure demo_world))
       = map created_line
          [[''app'', ''__init__.py''], [''app'', ''main.py''], [''app'', ''config.py''],
           [''app'', ''api'', ''__init__.py''], [''app'', ''api'', ''routes'', ''__init__.py''],
           [''app'', ''api'', ''routes'', ''users.py''], [''app'', ''api'', ''routes'', ''auth.py''],
           [''app'', ''database'', ''__init__.py''], [''app'', ''database'', ''models.py''],
           [''app'', ''database'', ''connection.py''], [''tests'', ''__init__.py''],
           [''tests'', ''test_api.py'']]
   \<and> rel_str [''app'', ''api'', ''routes'', ''users.py''] = ''app/api/routes/users.py''"
proof -
  have c: "clear_target (fs demo_world) (project_root demo_api)" using demo_clear by simp
  have o: "out demo_world = []" by (simp add: demo_world_def)
  from one_progress_line_per_file[OF wf_api c] wf_api c show ?thesis
    by (simp add: api_files o rel_str_def)
qed

text \<open>
  The counterexample to C8 as stated: building a directory \<^verbatim>\<open>img\<close> with an empty directory
  \<^verbatim>\<open>logo\<close> and a file \<^verbatim>\<open>favicon.ico\<close> creates the path \<^verbatim>\<open>img/logo\<close>, a leaf of the tree, and
  prints one line only, for the file: two leaves, one reported path. The built-in
  portfolio structure has such directories too: 63 leaves, of which 59 are files.
\<close>

theorem directory_created_without_progress_line:
  "fst (build_structure demo_self (project_root demo_self) logo_tree demo_world) = Inr ()
   \<and> fs demo_world [''home'', ''demo'', ''img'', ''logo''] = None
   \<and> fs (snd (build_structure demo_self (project_root demo_self) logo_tree demo_world))
        [''home'', ''demo'', ''img'', ''logo''] = Some DirN
   \<and> out demo_world = []
   \<and> out (snd (build_structure demo_self (project_root demo_self) logo_tree demo_world))
       = [created_line [''img'', ''favicon.ico'']]
   \<and> tree_leaves [] logo_tree = [[''img'', ''logo''], [''img'', ''favicon.ico'']]
   \<and> length (tree_files [] portfolio_structure) = 59
   \<and> length (tree_leaves [] portfolio_structure) = 63"
proof -
  have c: "clear_target (fs demo_world) (project_root demo_self)" using demo_clear by simp
  note b = build_ok(1)[OF wf_logo, of "[''home'', ''demo'']" demo_self demo_world]
  have n: "tree_nodes [''home'', ''demo''] logo_tree =
      [([''home'', ''demo'', ''img''], DirN), ([''home'', ''demo'', ''img'', ''logo''], DirN),
       ([''home'', ''demo'', ''img'', ''favicon.ico''], FileN ''ico'')]"
    by (simp add: logo_tree_def)
  have "build_structure demo_self [''home'', ''demo''] logo_tree demo_world =
        (Inr (), demo_world\<lparr>fs := built (fs demo_world) [''home'', ''demo''] logo_tree,
                    out := out demo_world @ map (\<lambda>p. created_line (drop (length (project_root demo_self)) p)) (tree_files [''home'', ''demo''] logo_tree),
                    trace := trace demo_world @ tree_calls [''home'', ''demo''] logo_tree\<rparr>)"
  proof (rule b)
    show "''..'' \<notin> set [''home'', ''demo'']" by simp
    show "prefix (project_root demo_self) [''home'', ''demo'']" by simp
    show "no_file_above (fs demo_world) [''home'', ''demo'']"
      using demo_clear by (simp add: clear_target_def)
    show "\<forall>n\<in>fst ` set logo_tree. \<forall>q. prefix ([''home'', ''demo''] @ [n]) q \<longrightarrow> fs demo_world q = None"
      by (auto simp: demo_fs logo_tree_def)
  qed
  then have "fst (build_structure demo_self (project_root demo_self) logo_tree demo_world) = Inr ()
   \<and> fs demo_world [''home'', ''demo'', ''img'', ''logo''] = None
   \<and> fs (snd (build_structure demo_self (project_root demo_self) logo_tree demo_world))
        [''home'', ''demo'', ''img'', ''logo''] = Some DirN
   \<and> out demo_world = []
   \<and> out (snd (build_structure demo_self (project_root demo_self) logo_tree demo_world))
       = [created_line [''img'', ''favicon.ico'']]"
    by (simp add: built_def n tree_files_def) (simp add: demo_world_def logo_tree_def)
  with leaves_count files_count(1) show ?thesis by simp
qed

subsection \<open>C9: existence before type\<close>

text \<open>
  Claim C9. When the root exists and the project type is not one of the three known
  types, \<^verbatim>\<open>create\<close> reports that the directory already exists and exits with status 1;
  the line for an unknown project type is not printed, and nothing is created. The
  outcome is the same whatever the type is: the type is looked at only after the check
  of the root.
\<close>

theorem existing_root_reported_before_unknown_type:
  "path_exists (fs w) (project_root self) \<Longrightarrow> project_type self \<notin> set choices \<Longrightarrow>
     fst (create self w) = Inl (SystemExit 1)
   \<and> out (snd (create self w)) = out w @ [creating_line self, exists_line self]
   \<and> unknown_type_line self \<notin> set [creating_line self, exists_line self]
   \<and> fs (snd (create self w)) = fs w
   \<and> (\<forall>t. fst (create (self\<lparr>project_type := t\<rparr>) w) = Inl (SystemExit 1)
          \<and> last (out (snd (create (self\<lparr>project_type := t\<rparr>) w))) = exists_line self)"
proof -
  assume e: "path_exists (fs w) (project_root self)"
  have "path_exists (fs w) (project_root (self\<lparr>project_type := t\<rparr>))" for t
    using e by simp
  note c = create_existing[OF e] create_existing[OF this]
  have x: "exists_line (self\<lparr>project_type := t\<rparr>) = exists_line self" for t
    by (simp add: exists_line_def)
  show ?thesis
    by (simp add: c lines_differ x)
qed

theorem existing_root_reported_before_unknown_type_witness:
  "path_exists (fs taken_world) (project_root (init taken_world ''demo'' ''blog''))
   \<and> project_type (init taken_world ''demo'' ''blog'') \<notin> set choices
   \<and> fst (create (init taken_world ''demo'' ''blog'') taken_world) = Inl (SystemExit 1)
   \<and> last (out (snd (create (init taken_world ''demo'' ''blog'') taken_world)))
       = exists_line (init taken_world ''demo'' ''blog'')"
proof -
  have t: "project_type (init taken_world ''demo'' ''blog'') \<notin> set choices"
    by (simp add: init_def choices_def)
  have e: "path_exists (fs taken_world) (project_root (init taken_world ''demo'' ''blog''))"
    using taken_exists by simp
  from existing_root_reported_before_unknown_type[OF e t] e t show ?thesis by simp
qed

subsection \<open>C10: one README for every type\<close>



end
